theory Spec2Isabelle
  imports Complex_Main "HOL-Library.Word"
begin

section \<open>NumPy float64 values\<close>

text \<open>
  The arrays of \<^verbatim>\<open>calculate_mechanical_properties\<close> hold float64 values. NumPy never
  raises on a division by zero or on an undefined operation: it answers with an
  infinity or with NaN (and a warning). The model keeps exactly that: a value is a
  finite number, one of the two infinities, or NaN. Finite values are exact reals:
  rounding, overflow to infinity in array arithmetic and the sign of zero are not
  modelled (a zero divisor counts as positive zero).
\<close>

datatype npfloat = Fin real | PInf | NInf | NaN

text \<open>The exceptions that the modelled lines can raise.\<close>

datatype py_error = ValueError | IndexError | OverflowError

fun np_neg :: "npfloat \<Rightarrow> npfloat" where
  "np_neg (Fin a) = Fin (- a)"
| "np_neg PInf = NInf"
| "np_neg NInf = PInf"
| "np_neg NaN = NaN"

fun np_add :: "npfloat \<Rightarrow> npfloat \<Rightarrow> npfloat" where
  "np_add (Fin a) (Fin b) = Fin (a + b)"
| "np_add NaN _ = NaN"
| "np_add _ NaN = NaN"
| "np_add PInf NInf = NaN"
| "np_add NInf PInf = NaN"
| "np_add PInf _ = PInf"
| "np_add _ PInf = PInf"
| "np_add NInf _ = NInf"
| "np_add _ NInf = NInf"

definition np_sub :: "npfloat \<Rightarrow> npfloat \<Rightarrow> npfloat" where
  "np_sub a b = np_add a (np_neg b)"

fun np_mul :: "npfloat \<Rightarrow> npfloat \<Rightarrow> npfloat" where
  "np_mul (Fin a) (Fin b) = Fin (a * b)"
| "np_mul NaN _ = NaN"
| "np_mul _ NaN = NaN"
| "np_mul (Fin a) PInf = (if a = 0 then NaN else if 0 < a then PInf else NInf)"
| "np_mul (Fin a) NInf = (if a = 0 then NaN else if 0 < a then NInf else PInf)"
| "np_mul PInf (Fin b) = (if b = 0 then NaN else if 0 < b then PInf else NInf)"
| "np_mul NInf (Fin b) = (if b = 0 then NaN else if 0 < b then NInf else PInf)"
| "np_mul PInf PInf = PInf"
| "np_mul PInf NInf = NInf"
| "np_mul NInf PInf = NInf"
| "np_mul NInf NInf = PInf"

fun np_div :: "npfloat \<Rightarrow> npfloat \<Rightarrow> npfloat" where
  "np_div (Fin a) (Fin b) =
     (if b = 0 then (if a = 0 then NaN else if 0 < a then PInf else NInf)
      else Fin (a / b))"
| "np_div NaN _ = NaN"
| "np_div _ NaN = NaN"
| "np_div (Fin a) _ = Fin 0"
| "np_div PInf (Fin b) = (if 0 \<le> b then PInf else NInf)"
| "np_div NInf (Fin b) = (if 0 \<le> b then NInf else PInf)"
| "np_div PInf PInf = NaN"
| "np_div PInf NInf = NaN"
| "np_div NInf PInf = NaN"
| "np_div NInf NInf = NaN"

fun np_abs :: "npfloat \<Rightarrow> npfloat" where
  "np_abs (Fin a) = Fin \<bar>a\<bar>"
| "np_abs PInf = PInf"
| "np_abs NInf = PInf"
| "np_abs NaN = NaN"

text \<open>Comparisons: every comparison with NaN is false.\<close>

fun np_gt :: "npfloat \<Rightarrow> npfloat \<Rightarrow> bool" where
  "np_gt (Fin a) (Fin b) = (b < a)"
| "np_gt NaN _ = False"
| "np_gt _ NaN = False"
| "np_gt PInf PInf = False"
| "np_gt PInf _ = True"
| "np_gt _ PInf = False"
| "np_gt NInf _ = False"
| "np_gt (Fin a) NInf = True"

fun np_eq :: "npfloat \<Rightarrow> npfloat \<Rightarrow> bool" where
  "np_eq (Fin a) (Fin b) = (a = b)"
| "np_eq PInf PInf = True"
| "np_eq NInf NInf = True"
| "np_eq NaN _ = False"
| "np_eq _ NaN = False"
| "np_eq (Fin a) _ = False"
| "np_eq _ (Fin b) = False"
| "np_eq PInf NInf = False"
| "np_eq NInf PInf = False"

text \<open>
  \<^verbatim>\<open>np.max\<close> and \<^verbatim>\<open>np.min\<close> reduce with \<^verbatim>\<open>np.maximum\<close> and \<^verbatim>\<open>np.minimum\<close>, which
  propagate NaN; on an empty array they raise ValueError.
\<close>

definition np_maximum :: "npfloat \<Rightarrow> npfloat \<Rightarrow> npfloat" where
  "np_maximum a b = (if a = NaN \<or> b = NaN then NaN else if np_gt b a then b else a)"

definition np_minimum :: "npfloat \<Rightarrow> npfloat \<Rightarrow> npfloat" where
  "np_minimum a b = (if a = NaN \<or> b = NaN then NaN else if np_gt a b then b else a)"

fun np_max :: "npfloat list \<Rightarrow> py_error + npfloat" where
  "np_max [] = Inl ValueError"
| "np_max (x # xs) = Inr (foldl np_maximum x xs)"

fun np_min :: "npfloat list \<Rightarrow> py_error + npfloat" where
  "np_min [] = Inl ValueError"
| "np_min (x # xs) = Inr (foldl np_minimum x xs)"

definition np_sum :: "npfloat list \<Rightarrow> npfloat" where
  "np_sum xs = foldl np_add (Fin 0) xs"

definition np_mean :: "npfloat list \<Rightarrow> npfloat" where
  "np_mean xs = np_div (np_sum xs) (Fin (real (length xs)))"

section \<open>Columns\<close>

text \<open>
  A numeric column of a DataFrame is a float64 array or an integer array: pandas gives a
  CSV column whose cells are all integer literals the dtype int64 (uint64 where a cell
  lies above the int64 range), and float64 to every other numeric column. Arithmetic
  between an integer array and a Python \<^verbatim>\<open>int\<close> stays in the integer dtype and wraps
  modulo \<open>2\<^sup>6\<^sup>4\<close> without an error; true division converts the integers to float64
  first. Columns that are not numeric (dtype \<^verbatim>\<open>object\<close>) are outside the model.
\<close>

datatype int_dtype = Int64 | UInt64

datatype ndarray = Floats "npfloat list" | Ints int_dtype "64 word list"

fun int_value :: "int_dtype \<Rightarrow> 64 word \<Rightarrow> int" where
  "int_value Int64 w = sint w"
| "int_value UInt64 w = uint w"

fun as_float64 :: "ndarray \<Rightarrow> npfloat list" where
  "as_float64 (Floats xs) = xs"
| "as_float64 (Ints t ws) = map (\<lambda>w. Fin (real_of_int (int_value t w))) ws"

text \<open>
  The argument \<open>data\<close> is a DataFrame: its columns have one common length, so it is a
  list of rows \<open>(Load_kN, Displacement_mm)\<close>, with the dtype of the load column. The
  displacement column is only divided by a float and searched for its maximum; both
  give, for an integer column, the results of the same numbers as float64, so its
  cells are held as float64 values.
\<close>

datatype dataframe =
    Float_loads "(npfloat \<times> npfloat) list"
  | Int_loads int_dtype "(64 word \<times> npfloat) list"

fun nrows :: "dataframe \<Rightarrow> nat" where
  "nrows (Float_loads rows) = length rows"
| "nrows (Int_loads t rows) = length rows"

fun Load_kN :: "dataframe \<Rightarrow> ndarray" where
  "Load_kN (Float_loads rows) = Floats (map fst rows)"
| "Load_kN (Int_loads t rows) = Ints t (map fst rows)"

fun Displacement_mm :: "dataframe \<Rightarrow> npfloat list" where
  "Displacement_mm (Float_loads rows) = map snd rows"
| "Displacement_mm (Int_loads t rows) = map snd rows"


section \<open>The linear fit\<close>

text \<open>
  \<^verbatim>\<open>scipy.stats.linregress(x, y)\<close> is a library function, and the repository does not
  say which release it runs on. The releases differ on an empty input: the older ones
  raise ValueError, the newer ones return NaN for slope and intercept. That choice is a
  parameter of the model. Otherwise the model follows the function's body. It raises
  ValueError on an input of more than one point whose \<open>x\<close> values are all identical,
  and else returns the least-squares line: \<open>ssxm\<close> is the mean of \<open>(x - mean x)\<^sup>2\<close>,
  \<open>ssxym\<close> the mean of \<open>(x - mean x) * (y - mean y)\<close> (the entries of
  \<^verbatim>\<open>np.cov(x, y, bias=1)\<close>, which raises ValueError when the two lengths differ),
  \<open>slope = ssxym / ssxm\<close> and \<open>intercept = mean y - slope * mean x\<close>. A single point
  yields \<open>0 / 0\<close>, that is NaN, for the slope.
\<close>

datatype scipy_release = Empty_raises | Empty_gives_NaN

definition linregress ::
    "scipy_release \<Rightarrow> npfloat list \<Rightarrow> npfloat list \<Rightarrow> py_error + (npfloat \<times> npfloat)" where
  "linregress scipy x y =
     (if x = [] \<or> y = [] then
        (case scipy of Empty_raises \<Rightarrow> Inl ValueError | Empty_gives_NaN \<Rightarrow> Inr (NaN, NaN))
      else case np_max x of Inl e \<Rightarrow> Inl e | Inr amax \<Rightarrow>
           (case np_min x of Inl e \<Rightarrow> Inl e | Inr amin \<Rightarrow>
      if np_eq amax amin \<and> 1 < length x then Inl ValueError
      else if length x \<noteq> length y then Inl ValueError
      else
        let xmean = np_mean x;
            ymean = np_mean y;
            ssxm = np_mean (map (\<lambda>a. np_mul (np_sub a xmean) (np_sub a xmean)) x);
            ssxym = np_mean (map2 (\<lambda>a b. np_mul (np_sub a xmean) (np_sub b ymean)) x y);
            slope = np_div ssxym ssxm;
            intercept = np_sub ymean (np_mul slope xmean)
        in Inr (slope, intercept)))"

section \<open>The computation\<close>

record load_displacement =
  displacement :: "npfloat list"
  load :: ndarray

record stress_strain =
  strain :: "npfloat list"
  stress :: "npfloat list"

record results =
  area_mm2 :: npfloat
  youngs_modulus_MPa :: npfloat
  yield_stress_MPa :: npfloat
  uts_MPa :: npfloat
  failure_strain_percent :: npfloat
  load_displacement_data :: load_displacement
  stress_strain_data :: stress_strain

text \<open>
  Line 29: \<^verbatim>\<open>load_kN * 1000\<close>. On an integer column the product is an integer product
  and wraps.
\<close>

fun load_N :: "ndarray \<Rightarrow> ndarray" where
  "load_N (Floats xs) = Floats (map (\<lambda>l. np_mul l (Fin 1000)) xs)"
| "load_N (Ints t ws) = Ints t (map (\<lambda>w. w * 1000) ws)"

text \<open>
  Lines 30 and 31: the two geometry arguments are finite Python numbers, taken as the
  reals they denote (an infinite or NaN float is outside the model).
  \<^verbatim>\<open>radius_mm**2\<close> is the power of a Python float, which raises OverflowError when the
  square lies above the largest float64; an integer diameter too large for a float
  raises the same error one line earlier, in the division by 2. The product with
  \<^verbatim>\<open>np.pi\<close> is a float product, which becomes infinite instead of raising.
\<close>

definition float64_max :: real where
  "float64_max = (2 - 1 / 2 ^ 52) * 2 ^ 1023"

definition A_0_mm2 :: "real \<Rightarrow> py_error + npfloat" where
  "A_0_mm2 diameter_mm =
     (let radius_mm = diameter_mm / 2 in
      if float64_max < radius_mm ^ 2 then Inl OverflowError
      else if float64_max < pi * radius_mm ^ 2 then Inr PInf
      else Inr (Fin (pi * radius_mm ^ 2)))"

text \<open>Lines 32 and 33: the stress array and the strain array.\<close>

definition stress_MPa :: "ndarray \<Rightarrow> npfloat \<Rightarrow> npfloat list" where
  "stress_MPa load_kN A_0 = map (\<lambda>l. np_div l A_0) (as_float64 (load_N load_kN))"

definition strain_of :: "npfloat list \<Rightarrow> real \<Rightarrow> npfloat list" where
  "strain_of displacement_mm gauge_length_mm =
     map (\<lambda>d. np_div d (Fin gauge_length_mm)) displacement_mm"

text \<open>
  Line 36: \<^verbatim>\<open>int(len(stress_MPa) * 0.1)\<close>. The product is not negative, so \<^verbatim>\<open>int\<close>
  truncates it to its floor. The factor is taken as the exact tenth.
\<close>

definition linear_points :: "nat \<Rightarrow> nat" where
  "linear_points n = nat \<lfloor>real n * (1 / 10)\<rfloor>"

text \<open>Lines 38 and 39: the fitted line at every strain, and the relative deviation.\<close>

definition predicted_stress :: "npfloat \<Rightarrow> npfloat \<Rightarrow> npfloat list \<Rightarrow> npfloat list" where
  "predicted_stress slope intercept strn = map (\<lambda>e. np_add (np_mul slope e) intercept) strn"

definition deviation :: "npfloat list \<Rightarrow> npfloat list \<Rightarrow> npfloat list" where
  "deviation strs predicted =
     map2 (\<lambda>s p. np_div (np_abs (np_sub s p)) (np_add s (Fin (1 / 10 ^ 6)))) strs predicted"

definition deviation_threshold :: npfloat where
  "deviation_threshold = Fin (5 / 100)"

text \<open>
  Line 41: \<^verbatim>\<open>np.where(deviation > deviation_threshold)[0][0]\<close>. \<^verbatim>\<open>np.where\<close> lists the
  indices at which the comparison holds, in increasing order; taking element 0 of an
  empty index array raises IndexError.
\<close>

definition np_where :: "bool list \<Rightarrow> nat list" where
  "np_where cond = filter (\<lambda>i. cond ! i) [0..<length cond]"

definition yield_index :: "npfloat list \<Rightarrow> py_error + nat" where
  "yield_index dev =
     (case np_where (map (\<lambda>d. np_gt d deviation_threshold) dev) of
        [] \<Rightarrow> Inl IndexError
      | i # _ \<Rightarrow> Inr i)"

definition calculate_mechanical_properties ::
    "scipy_release \<Rightarrow> dataframe \<Rightarrow> real \<Rightarrow> real \<Rightarrow> py_error + results" where
  "calculate_mechanical_properties scipy data diameter_mm gauge_length_mm =
     (let load_kN = Load_kN data;
          displacement_mm = Displacement_mm data
      in case A_0_mm2 diameter_mm of
           Inl e \<Rightarrow> Inl e
         | Inr A_0 \<Rightarrow>
        (let strs = stress_MPa load_kN A_0;
             strn = strain_of displacement_mm gauge_length_mm;
             k = linear_points (length strs)
         in case linregress scipy (take k strn) (take k strs) of
           Inl e \<Rightarrow> Inl e
         | Inr (slope, intercept) \<Rightarrow>
        (case yield_index (deviation strs (predicted_stress slope intercept strn)) of
           Inl e \<Rightarrow> Inl e
         | Inr yi \<Rightarrow>
        (case np_max strs of
           Inl e \<Rightarrow> Inl e
         | Inr uts \<Rightarrow>
        (case np_max displacement_mm of
           Inl e \<Rightarrow> Inl e
         | Inr dmax \<Rightarrow>
             Inr \<lparr> area_mm2 = A_0,
                   youngs_modulus_MPa = np_div (strs ! yi) (strn ! yi),
                   yield_stress_MPa = strs ! yi,
                   uts_MPa = uts,
                   failure_strain_percent =
                     np_mul (np_div dmax (Fin gauge_length_mm)) (Fin 100),
                   load_displacement_data =
                     \<lparr> displacement = displacement_mm, load = load_kN \<rparr>,
                   stress_strain_data = \<lparr> strain = strn, stress = strs \<rparr> \<rparr>)))))"

section \<open>The caller\<close>

text \<open>
  \<^verbatim>\<open>update_output\<close> is the only caller of the computation. A form field holds a number
  or nothing (\<open>None\<close>). Decoding the upload (\<^verbatim>\<open>process_csv_data\<close>, pandas' CSV reader)
  is a parameter: it answers with an error message or with a DataFrame. The rendering
  of a result is not modelled: the page shows the result record.
\<close>

datatype page = Message string | Shown results

definition positive_number :: "real option \<Rightarrow> bool" where
  "positive_number x = (case x of None \<Rightarrow> False | Some v \<Rightarrow> 0 < v)"

definition update_output ::
    "scipy_release \<Rightarrow> (string \<Rightarrow> string \<Rightarrow> string + dataframe) \<Rightarrow> nat \<Rightarrow> string option \<Rightarrow>
     string \<Rightarrow> real option \<Rightarrow> real option \<Rightarrow> real option \<Rightarrow> py_error + page" where
  "update_output scipy process_csv_data n_clicks contents filename diameter gauge_length
       displacement_rate =
     (case contents of
        None \<Rightarrow> Inr (Message ''Please upload a file and click Calculate.'')
      | Some c \<Rightarrow>
        if n_clicks = 0 then Inr (Message ''Please upload a file and click Calculate.'')
        else if \<not> list_all positive_number [diameter, gauge_length, displacement_rate]
        then Inr (Message ''Inputs must be positive numbers.'')
        else (case process_csv_data c filename of
                Inl error \<Rightarrow> Inr (Message error)
              | Inr data \<Rightarrow>
                 (case calculate_mechanical_properties scipy data (the diameter)
                         (the gauge_length) of
                    Inl e \<Rightarrow> Inl e
                  | Inr res \<Rightarrow> Inr (Shown res))))"

section \<open>Tests\<close>

text \<open>
  The sample test: twenty rows of floats, a 6 mm specimen (cross-section \<open>area_6\<close>), a
  gauge length of 32.2 mm. The first two loads are zero, so the fitted line is flat;
  the load of row 2 departs from it. The largest load is in row 10 and the largest
  displacement in row 12, neither the last row.
\<close>

definition area_6 :: real where
  "area_6 = pi * 3 ^ 2"

definition ex_rows :: "(npfloat \<times> npfloat) list" where
  "ex_rows = [(Fin 0, Fin 0), (Fin 0, Fin 1), (Fin 1, Fin 2), (Fin 2, Fin 3), (Fin 3, Fin 4),
     (Fin 4, Fin 5), (Fin 5, Fin 6), (Fin 6, Fin 7), (Fin 7, Fin 8), (Fin 8, Fin 9),
     (Fin 30, Fin 10), (Fin 10, Fin 11), (Fin 11, Fin 25), (Fin 12, Fin 13), (Fin 13, Fin 14),
     (Fin 14, Fin 15), (Fin 15, Fin 16), (Fin 16, Fin 17), (Fin 17, Fin 18), (Fin 18, Fin 19)]"

definition ex_data :: dataframe where
  "ex_data = Float_loads ex_rows"

definition ex_res :: results where
  "ex_res = \<lparr> area_mm2 = Fin (pi * 3 ^ 2),
              youngs_modulus_MPa = Fin ((1000 / (pi * 3 ^ 2)) / (2 / (161 / 5))),
              yield_stress_MPa = Fin (1000 / (pi * 3 ^ 2)),
              uts_MPa = Fin (30000 / (pi * 3 ^ 2)),
              failure_strain_percent = Fin (25 / (161 / 5) * 100),
              load_displacement_data =
                \<lparr> displacement = Displacement_mm ex_data, load = Load_kN ex_data \<rparr>,
              stress_strain_data =
                \<lparr> strain = strain_of (Displacement_mm ex_data) (161 / 5),
                  stress = stress_MPa (Load_kN ex_data) (Fin area_6) \<rparr> \<rparr>"

text \<open>
  Further tests. \<open>linear_data\<close> is a perfectly linear test: loads 0, 1, ..., 19 kN at
  displacements 0, 0.1, ..., 1.9 mm. \<open>short_data\<close> has ten rows and \<open>tiny_data\<close> three.
  \<open>stuck_data\<close> repeats one row twenty times.
  \<open>neg_data\<close> is a compression test: a load of -1 kN in rows 0 and 1, and of \<open>-i\<close> kN
  in every later row \<open>i\<close>. \<open>zero_den_data\<close> is the sample test with the load of row 2
  replaced by \<open>- \<pi> * 3\<^sup>2 / 10\<^sup>9\<close> kN, which a 6 mm specimen turns into a stress of
  -1e-6 MPa. \<open>nan_data\<close> is the sample test with both cells of row 5 missing: pandas
  reads a missing cell as NaN. \<open>int_data\<close> has an int64 load column: twenty rows with
  the loads of the sample test, but 9223372036854776 kN in row 10, whose thousandfold
  lies above the int64 range.
\<close>

definition linear_data :: dataframe where
  "linear_data = Float_loads (map (\<lambda>i. (Fin (real i), Fin (real i / 10))) [0..<20])"

definition short_data :: dataframe where
  "short_data = Float_loads (map (\<lambda>i. (Fin (real i), Fin (real i / 10))) [0..<10])"

definition tiny_data :: dataframe where
  "tiny_data = Float_loads [(Fin 0, Fin 0), (Fin 1, Fin (1 / 10)), (Fin 2, Fin (2 / 10))]"

definition stuck_data :: dataframe where
  "stuck_data = Float_loads (replicate 20 (Fin 1, Fin 1))"

definition neg_data :: dataframe where
  "neg_data =
     Float_loads (map (\<lambda>i. (Fin (if i < 2 then - 1 else - real i), Fin (real i))) [0..<20])"

definition zero_den_data :: dataframe where
  "zero_den_data = Float_loads (ex_rows[2 := (Fin (- (pi * 3 ^ 2) / 10 ^ 9), Fin 2)])"

definition nan_data :: dataframe where
  "nan_data = Float_loads (ex_rows[5 := (NaN, NaN)])"

definition nan_res :: results where
  "nan_res = \<lparr> area_mm2 = Fin (pi * 3 ^ 2),
               youngs_modulus_MPa = Fin ((1000 / (pi * 3 ^ 2)) / (2 / (161 / 5))),
               yield_stress_MPa = Fin (1000 / (pi * 3 ^ 2)),
               uts_MPa = NaN,
               failure_strain_percent = NaN,
               load_displacement_data =
                 \<lparr> displacement = Displacement_mm nan_data, load = Load_kN nan_data \<rparr>,
               stress_strain_data =
                 \<lparr> strain = strain_of (Displacement_mm nan_data) (161 / 5),
                   stress = stress_MPa (Load_kN nan_data) (Fin area_6) \<rparr> \<rparr>"

definition int_data :: dataframe where
  "int_data = Int_loads Int64
     [(0, Fin 0), (0, Fin 1), (1, Fin 2), (2, Fin 3), (3, Fin 4),
      (4, Fin 5), (5, Fin 6), (6, Fin 7), (7, Fin 8), (8, Fin 9),
      (9223372036854776, Fin 10), (10, Fin 11), (11, Fin 25), (12, Fin 13), (13, Fin 14),
      (14, Fin 15), (15, Fin 16), (16, Fin 17), (17, Fin 18), (18, Fin 19)]"

section \<open>Auxiliary facts\<close>

subsection \<open>Lengths and the prefix\<close>

lemma length_Displacement_mm: "length (Displacement_mm data) = nrows data"
  by (cases data) simp_all

lemma length_stress_MPa: "length (stress_MPa (Load_kN data) A_0) = nrows data"
  by (cases data) (simp_all add: stress_MPa_def)

lemma length_strain_of: "length (strain_of (Displacement_mm data) g) = nrows data"
  by (simp add: strain_of_def length_Displacement_mm)

lemma length_curve:
  "length (strain_of (Displacement_mm data) g) = length (stress_MPa (Load_kN data) A_0)"
  by (simp add: length_stress_MPa length_strain_of)

lemma linear_points_div: "linear_points n = n div 10"
proof -
  have "\<lfloor>real n / 10\<rfloor> = int (n div 10)"
    using floor_divide_of_nat_eq[of n 10] by simp
  then show ?thesis unfolding linear_points_def by simp
qed

subsection \<open>The yield lookup\<close>

lemma filter_upt_first:
  assumes "filter P [0..<n] = i # rest"
  shows "i < n \<and> P i \<and> (\<forall>j<i. \<not> P j)"
proof -
  have mem: "i \<in> set (filter P [0..<n])" using assms by simp
  have srt: "sorted (i # rest)" using sorted_wrt_filter[of "(\<le>)" "[0..<n]" P] assms by simp
  have "\<not> P j" if "j < i" for j
  proof
    assume "P j"
    moreover have "j < n" using that mem by simp
    ultimately have "j \<in> set (i # rest)" using assms[symmetric] by simp
    then show False using srt that by auto
  qed
  then show ?thesis using mem by simp
qed

lemma filter_upt_first_intro:
  assumes "i < n" "P i" "\<forall>j<i. \<not> P j"
  shows "\<exists>rest. filter P [0..<n] = i # rest"
proof -
  have "[0..<n] = [0..<i] @ i # [Suc i..<n]"
    using assms(1) by (metis less_imp_add_positive upt_add_eq_append upt_conv_Cons zero_le le_add1 less_eq_nat.simps(1) add.commute)
  moreover have "filter P [0..<i] = []" using assms(3) by simp
  ultimately show ?thesis using assms(2) by simp
qed

lemma yield_index_Inr_iff:
  "yield_index dev = Inr i \<longleftrightarrow>
     i < length dev \<and> np_gt (dev ! i) deviation_threshold \<and>
     (\<forall>j<i. \<not> np_gt (dev ! j) deviation_threshold)"
proof
  assume "yield_index dev = Inr i"
  then obtain rest where
    "filter (\<lambda>i. map (\<lambda>d. np_gt d deviation_threshold) dev ! i) [0..<length dev] = i # rest"
    by (auto simp: yield_index_def np_where_def split: list.splits)
  from filter_upt_first[OF this]
  show "i < length dev \<and> np_gt (dev ! i) deviation_threshold \<and>
     (\<forall>j<i. \<not> np_gt (dev ! j) deviation_threshold)"
    by auto
next
  assume a: "i < length dev \<and> np_gt (dev ! i) deviation_threshold \<and>
     (\<forall>j<i. \<not> np_gt (dev ! j) deviation_threshold)"
  have "\<exists>rest. filter (\<lambda>i. map (\<lambda>d. np_gt d deviation_threshold) dev ! i) [0..<length dev] = i # rest"
    by (rule filter_upt_first_intro) (use a in auto)
  then show "yield_index dev = Inr i"
    by (auto simp: yield_index_def np_where_def)
qed

lemma yield_index_Inl_iff:
  "yield_index dev = Inl e \<longleftrightarrow>
     e = IndexError \<and> (\<forall>j<length dev. \<not> np_gt (dev ! j) deviation_threshold)"
proof (cases "yield_index dev")
  case (Inl e')
  then show ?thesis
    by (auto simp: yield_index_def np_where_def filter_empty_conv split: list.splits)
next
  case (Inr i)
  then show ?thesis
    using yield_index_Inr_iff[of dev i] by auto
qed

lemma length_deviation:
  "length strn = length strs \<Longrightarrow>
   length (deviation strs (predicted_stress slope intercept strn)) = length strs"
  by (simp add: deviation_def predicted_stress_def)

lemma deviation_nth:
  "i < length strs \<Longrightarrow> length strn = length strs \<Longrightarrow>
   deviation strs (predicted_stress slope intercept strn) ! i =
     np_div (np_abs (np_sub (strs ! i) (np_add (np_mul slope (strn ! i)) intercept)))
            (np_add (strs ! i) (Fin (1 / 10 ^ 6)))"
  by (simp add: deviation_def predicted_stress_def)

subsection \<open>When the computation succeeds\<close>

lemma calculate_Inr_iff:
  "calculate_mechanical_properties scipy data d g = Inr res \<longleftrightarrow>
     (\<exists>A_0 slope intercept yi uts dmax.
        A_0_mm2 d = Inr A_0 \<and>
        linregress scipy (take (linear_points (nrows data)) (strain_of (Displacement_mm data) g))
                   (take (linear_points (nrows data)) (stress_MPa (Load_kN data) A_0))
          = Inr (slope, intercept) \<and>
        yield_index (deviation (stress_MPa (Load_kN data) A_0)
                       (predicted_stress slope intercept (strain_of (Displacement_mm data) g)))
          = Inr yi \<and>
        np_max (stress_MPa (Load_kN data) A_0) = Inr uts \<and>
        np_max (Displacement_mm data) = Inr dmax \<and>
        res = \<lparr> area_mm2 = A_0,
                youngs_modulus_MPa =
                  np_div (stress_MPa (Load_kN data) A_0 ! yi)
                         (strain_of (Displacement_mm data) g ! yi),
                yield_stress_MPa = stress_MPa (Load_kN data) A_0 ! yi,
                uts_MPa = uts,
                failure_strain_percent = np_mul (np_div dmax (Fin g)) (Fin 100),
                load_displacement_data =
                  \<lparr> displacement = Displacement_mm data, load = Load_kN data \<rparr>,
                stress_strain_data =
                  \<lparr> strain = strain_of (Displacement_mm data) g,
                    stress = stress_MPa (Load_kN data) A_0 \<rparr> \<rparr>)"
  by (auto simp: calculate_mechanical_properties_def Let_def length_stress_MPa
           split: sum.splits prod.splits)

lemma calculate_area_error:
  "A_0_mm2 d = Inl e \<Longrightarrow> calculate_mechanical_properties scipy data d g = Inl e"
  by (simp add: calculate_mechanical_properties_def)

lemma calculate_fit_error:
  "A_0_mm2 d = Inr A_0 \<Longrightarrow>
   linregress scipy (take (linear_points (nrows data)) (strain_of (Displacement_mm data) g))
              (take (linear_points (nrows data)) (stress_MPa (Load_kN data) A_0)) = Inl e
   \<Longrightarrow> calculate_mechanical_properties scipy data d g = Inl e"
  by (simp add: calculate_mechanical_properties_def Let_def length_stress_MPa)

lemma calculate_yield_error:
  "A_0_mm2 d = Inr A_0 \<Longrightarrow>
   linregress scipy (take (linear_points (nrows data)) (strain_of (Displacement_mm data) g))
              (take (linear_points (nrows data)) (stress_MPa (Load_kN data) A_0))
     = Inr (slope, intercept) \<Longrightarrow>
   yield_index (deviation (stress_MPa (Load_kN data) A_0)
       (predicted_stress slope intercept (strain_of (Displacement_mm data) g))) = Inl e
   \<Longrightarrow> calculate_mechanical_properties scipy data d g = Inl e"
  by (simp add: calculate_mechanical_properties_def Let_def length_stress_MPa)

subsection \<open>The area\<close>

lemma float64_max_large: "36 \<le> float64_max"
  by (simp add: float64_max_def)

lemma square_le_pi_square: "(r::real) ^ 2 \<le> pi * r ^ 2"
proof -
  have "1 * r ^ 2 \<le> pi * r ^ 2"
    using pi_ge_two by (intro mult_right_mono) simp_all
  then show ?thesis by simp
qed

lemma A_0_mm2_in_range:
  assumes "pi * (d / 2) ^ 2 \<le> float64_max"
  shows "A_0_mm2 d = Inr (Fin (pi * (d / 2) ^ 2))"
proof -
  have "(d / 2) ^ 2 \<le> float64_max"
    using square_le_pi_square[of "d / 2"] assms by (rule order_trans)
  with assms show ?thesis
    by (simp add: A_0_mm2_def Let_def not_less[symmetric])
qed


lemma A_0_mm2_neg: "A_0_mm2 (- d) = A_0_mm2 d"
  by (simp add: A_0_mm2_def Let_def)

subsection \<open>The maximum of finite values\<close>

lemma foldl_np_maximum_Fin:
  "foldl np_maximum (Fin a) (map Fin rs) = Fin (foldl max a rs)"
  by (induction rs arbitrary: a) (auto simp: np_maximum_def max_def)

lemma np_max_Fin:
  assumes "rs \<noteq> []"
  shows "np_max (map Fin rs) = Inr (Fin (Max (set rs)))"
proof -
  obtain r rs' where rs: "rs = r # rs'" using assms by (cases rs) auto
  have "foldl max r rs' = fold max rs' r"
    by (simp add: foldl_conv_fold max.commute)
  also have "\<dots> = Max (set (r # rs'))"
    by (rule Max.set_eq_fold[symmetric])
  finally show ?thesis unfolding rs by (simp add: foldl_np_maximum_Fin)
qed

lemma Max_scaled:
  fixes c :: real
  assumes "0 < c" "rs \<noteq> []"
  shows "Max (set (map (\<lambda>l. l * c) rs)) = Max (set rs) * c"
proof -
  have "mono (\<lambda>l. l * c)" using assms(1) by (simp add: mono_def)
  from mono_Max_commute[OF this, of "set rs"] assms(2)
  show ?thesis by simp
qed

lemma stress_MPa_Fin:
  "A \<noteq> 0 \<Longrightarrow>
   stress_MPa (Floats (map Fin ls)) (Fin A) = map (\<lambda>l. Fin (l * (1000 / A))) ls"
  by (simp add: stress_MPa_def)

lemma strain_of_Fin:
  "g \<noteq> 0 \<Longrightarrow> strain_of (map Fin xs) g = map (\<lambda>x. Fin (x / g)) xs"
  by (simp add: strain_of_def)

lemma np_max_stress_Fin:
  assumes "0 < A" "ls \<noteq> []"
  shows "np_max (stress_MPa (Floats (map Fin ls)) (Fin A)) =
         Inr (Fin (Max (set ls) * (1000 / A)))"
proof -
  have pos: "0 < 1000 / A" using assms(1) by simp
  have "stress_MPa (Floats (map Fin ls)) (Fin A) = map Fin (map (\<lambda>l. l * (1000 / A)) ls)"
    using assms(1) by (simp add: stress_MPa_Fin)
  then show ?thesis
    using np_max_Fin[of "map (\<lambda>l. l * (1000 / A)) ls"] Max_scaled[OF pos assms(2)] assms(2)
    by simp
qed


subsection \<open>The sample test, computed\<close>

lemma length_examples:
  "nrows ex_data = 20" "nrows linear_data = 20" "nrows short_data = 10"
  "nrows tiny_data = 3" "nrows neg_data = 20" "nrows stuck_data = 20"
  "nrows zero_den_data = 20" "nrows nan_data = 20" "nrows int_data = 20"
  by (simp_all add: ex_data_def ex_rows_def linear_data_def short_data_def tiny_data_def
      neg_data_def stuck_data_def zero_den_data_def nan_data_def int_data_def)

lemma ex_loads: "Load_kN ex_data =
    Floats (map Fin [0, 0, 1, 2, 3, 4, 5, 6, 7, 8, 30, 10, 11, 12, 13, 14, 15, 16, 17, 18])"
  by (simp add: ex_data_def ex_rows_def)

lemma ex_displacements: "Displacement_mm ex_data =
    map Fin [0, 1, 2, 3, 4, 5, 6, 7, 8, 9, 10, 11, 25, 13, 14, 15, 16, 17, 18, 19]"
  by (simp add: ex_data_def ex_rows_def)

lemma area_6_bounds: "0 < area_6" "area_6 < 36" "area_6 \<noteq> 0"
  using pi_gt_zero pi_less_4 by (simp_all add: area_6_def)

lemma A_0_mm2_6: "A_0_mm2 6 = Inr (Fin area_6)"
proof -
  have "pi * (6 / 2) ^ 2 = area_6" by (simp add: area_6_def)
  moreover have "area_6 \<le> float64_max"
    using area_6_bounds(2) float64_max_large by linarith
  ultimately show ?thesis using A_0_mm2_in_range[of 6] by simp
qed

lemma scale_6: "0 < 1000 / area_6" "1 / 10 ^ 6 < 19 * (1000 / area_6)"
proof -
  show "0 < 1000 / area_6" using area_6_bounds(1) by simp
  have "1000 / 36 < 1000 / area_6"
    using area_6_bounds(1,2) by (intro divide_strict_left_mono) simp_all
  then show "1 / 10 ^ 6 < 19 * (1000 / area_6)" by simp
qed

lemma ex_stress: "stress_MPa (Load_kN ex_data) (Fin area_6) =
    map (\<lambda>l. Fin (l * (1000 / area_6)))
      [0, 0, 1, 2, 3, 4, 5, 6, 7, 8, 30, 10, 11, 12, 13, 14, 15, 16, 17, 18]"
  unfolding ex_loads by (rule stress_MPa_Fin) (rule area_6_bounds(3))

lemma ex_strain: "strain_of (Displacement_mm ex_data) (161 / 5) =
    map (\<lambda>x. Fin (x / (161 / 5)))
      [0, 1, 2, 3, 4, 5, 6, 7, 8, 9, 10, 11, 25, 13, 14, 15, 16, 17, 18, 19]"
  unfolding ex_displacements by (rule strain_of_Fin) simp

lemma ex_linear_points: "linear_points (nrows ex_data) = 2"
  by (simp add: linear_points_div ex_data_def ex_rows_def)

lemma ex_fit:
  "linregress scipy (take (linear_points (nrows ex_data)) (strain_of (Displacement_mm ex_data) (161 / 5)))
              (take (linear_points (nrows ex_data)) (stress_MPa (Load_kN ex_data) (Fin area_6)))
     = Inr (Fin 0, Fin 0)"
  unfolding ex_linear_points ex_stress ex_strain
  by (simp add: linregress_def np_maximum_def np_minimum_def
        np_mean_def np_sum_def np_sub_def Let_def)

lemma ex_yield_index:
  "yield_index (deviation (stress_MPa (Load_kN ex_data) (Fin area_6))
      (predicted_stress (Fin 0) (Fin 0) (strain_of (Displacement_mm ex_data) (161 / 5)))) = Inr 2"
proof -
  define c :: real where "c = 1000 / area_6"
  have c: "0 < c" "1 / 10 ^ 6 < 19 * c" using scale_6 by (simp_all only: c_def)
  then have nz: "c + 1 / 10 ^ 6 \<noteq> 0" by auto
  have strs: "stress_MPa (Load_kN ex_data) (Fin area_6) =
    map (\<lambda>l. Fin (l * c)) [0, 0, 1, 2, 3, 4, 5, 6, 7, 8, 30, 10, 11, 12, 13, 14, 15, 16, 17, 18]"
    by (simp only: ex_stress c_def)
  have len: "length (strain_of (Displacement_mm ex_data) (161 / 5)) = length (stress_MPa (Load_kN ex_data) (Fin area_6))"
    by (simp add: length_stress_MPa length_strain_of)
  have n: "length (stress_MPa (Load_kN ex_data) (Fin area_6)) = 20"
    by (simp add: length_stress_MPa length_examples)
  have d0: "deviation (stress_MPa (Load_kN ex_data) (Fin area_6))
      (predicted_stress (Fin 0) (Fin 0) (strain_of (Displacement_mm ex_data) (161 / 5))) ! 0 = Fin 0"
    by (subst deviation_nth[OF _ len]) (simp_all add: n, simp add: strs ex_strain np_sub_def)
  have d1: "deviation (stress_MPa (Load_kN ex_data) (Fin area_6))
      (predicted_stress (Fin 0) (Fin 0) (strain_of (Displacement_mm ex_data) (161 / 5))) ! 1 = Fin 0"
    by (subst deviation_nth[OF _ len]) (simp_all add: n, simp add: strs ex_strain np_sub_def)
  have d2: "deviation (stress_MPa (Load_kN ex_data) (Fin area_6))
      (predicted_stress (Fin 0) (Fin 0) (strain_of (Displacement_mm ex_data) (161 / 5))) ! 2 =
      Fin (c / (c + 1 / 10 ^ 6))"
    using c(1) nz
    by (subst deviation_nth[OF _ len]) (simp_all add: n, simp add: strs ex_strain np_sub_def)
  have gt: "5 / 100 < c / (c + 1 / 10 ^ 6)"
    using c by (simp add: field_simps)
  show ?thesis
    unfolding yield_index_Inr_iff length_deviation[OF len] n
    using d0 d1 d2 gt by (auto simp: deviation_threshold_def less_2_cases_iff)
qed

lemma ex_uts: "np_max (stress_MPa (Load_kN ex_data) (Fin area_6)) = Inr (Fin (30000 / (pi * 3 ^ 2)))"
  unfolding ex_loads
  by (subst np_max_stress_Fin) (use area_6_bounds(1) in \<open>simp_all add: area_6_def\<close>)

lemma ex_dmax: "np_max (Displacement_mm ex_data) = Inr (Fin 25)"
  unfolding ex_displacements
  by (subst np_max_Fin) simp_all

lemma calculate_ex_data:
  "calculate_mechanical_properties scipy ex_data 6 (161 / 5) = Inr ex_res"
proof -
  have y: "stress_MPa (Load_kN ex_data) (Fin area_6) ! 2 = Fin (1000 / area_6)"
    by (simp add: ex_stress)
  have e: "strain_of (Displacement_mm ex_data) (161 / 5) ! 2 = Fin (2 / (161 / 5))"
    by (simp add: ex_strain)
  show ?thesis
    unfolding calculate_Inr_iff
    apply (intro exI conjI)
         apply (rule A_0_mm2_6)
        apply (rule ex_fit)
       apply (rule ex_yield_index)
      apply (rule ex_uts)
     apply (rule ex_dmax)
    apply (simp add: ex_res_def y e)
    apply (simp add: area_6_def)
    done
qed

subsection \<open>The maximum in general\<close>

lemma np_gt_below: "np_gt b a \<Longrightarrow> \<not> np_gt b m \<Longrightarrow> m \<noteq> NaN \<Longrightarrow> \<not> np_gt a m"
  by (cases a; cases b; cases m) auto

lemma np_gt_chain: "\<not> np_gt x a \<Longrightarrow> \<not> np_gt a m \<Longrightarrow> a \<noteq> NaN \<Longrightarrow> \<not> np_gt x m"
  by (cases a; cases x; cases m) auto

lemma np_gt_irrefl: "\<not> np_gt a a"
  by (cases a) auto

lemma foldl_np_maximum_NaN: "foldl np_maximum NaN xs = NaN"
  by (induction xs) (auto simp: np_maximum_def)

lemma foldl_np_maximum_has_NaN: "NaN \<in> set xs \<Longrightarrow> foldl np_maximum a xs = NaN"
  by (induction xs arbitrary: a) (auto simp: np_maximum_def foldl_np_maximum_NaN)

lemma foldl_np_maximum_greatest:
  assumes "a \<noteq> NaN" "NaN \<notin> set xs"
  shows "foldl np_maximum a xs \<in> set (a # xs) \<and>
         (\<forall>x\<in>set (a # xs). \<not> np_gt x (foldl np_maximum a xs))"
  using assms
proof (induction xs arbitrary: a)
  case Nil
  then show ?case by (simp add: np_gt_irrefl)
next
  case (Cons y ys)
  let ?a' = "np_maximum a y"
  let ?m = "foldl np_maximum ?a' ys"
  have y: "y \<noteq> NaN" "NaN \<notin> set ys" using Cons.prems by auto
  have a': "?a' \<noteq> NaN" "?a' = a \<or> ?a' = y"
    using Cons.prems(1) y(1) by (auto simp: np_maximum_def)
  from Cons.IH[OF a'(1) y(2)]
  have ih: "?m \<in> set (?a' # ys)" "\<forall>x\<in>set (?a' # ys). \<not> np_gt x ?m" by auto
  have m: "?m \<noteq> NaN" using ih(1) a'(1) y(2) by auto
  have top: "\<not> np_gt ?a' ?m" using ih(2) by simp
  have "\<not> np_gt a ?m"
  proof (cases "np_gt y a")
    case True
    then have "?a' = y" using Cons.prems(1) y(1) by (simp add: np_maximum_def)
    with top True m show ?thesis using np_gt_below by metis
  next
    case False
    then have "?a' = a" using Cons.prems(1) y(1) by (simp add: np_maximum_def)
    with top show ?thesis by simp
  qed
  moreover have "\<not> np_gt y ?m"
  proof (cases "np_gt y a")
    case True
    then have "?a' = y" using Cons.prems(1) y(1) by (simp add: np_maximum_def)
    with top show ?thesis by simp
  next
    case False
    then have "?a' = a" using Cons.prems(1) y(1) by (simp add: np_maximum_def)
    with top False Cons.prems(1) show ?thesis using np_gt_chain by metis
  qed
  ultimately show ?case using ih a'(2) by auto
qed

lemma np_max_greatest:
  assumes "np_max xs = Inr m"
  shows "(NaN \<in> set xs \<longrightarrow> m = NaN) \<and>
         (NaN \<notin> set xs \<longrightarrow> m \<in> set xs \<and> (\<forall>x\<in>set xs. \<not> np_gt x m))"
proof (cases xs)
  case Nil
  with assms show ?thesis by simp
next
  case (Cons a ys)
  with assms have m: "m = foldl np_maximum a ys" by simp
  show ?thesis
  proof (cases "NaN \<in> set xs")
    case True
    then have "m = NaN"
      unfolding m using Cons by (auto simp: foldl_np_maximum_NaN foldl_np_maximum_has_NaN)
    with True show ?thesis by simp
  next
    case False
    then have "a \<noteq> NaN" "NaN \<notin> set ys" using Cons by auto
    from foldl_np_maximum_greatest[OF this] False show ?thesis
      unfolding m Cons by simp
  qed
qed

subsection \<open>The fit on short prefixes\<close>

lemma linregress_single: "linregress scipy [x] [y] = Inr (NaN, NaN)"
  by (cases x; cases y)
     (simp_all add: linregress_def np_mean_def np_sum_def np_sub_def Let_def)

lemma np_eq_extremes: "np_eq (np_maximum a b) (np_minimum a b) = np_eq a b"
  by (cases a; cases b) (auto simp: np_maximum_def np_minimum_def)

lemma linregress_pair:
  "linregress scipy [x0, x1] [y0, y1] =
     (if np_eq x0 x1 then Inl ValueError
      else let xmean = np_mean [x0, x1]; ymean = np_mean [y0, y1];
               ssxm = np_mean [np_mul (np_sub x0 xmean) (np_sub x0 xmean),
                               np_mul (np_sub x1 xmean) (np_sub x1 xmean)];
               ssxym = np_mean [np_mul (np_sub x0 xmean) (np_sub y0 ymean),
                                np_mul (np_sub x1 xmean) (np_sub y1 ymean)];
               slope = np_div ssxym ssxm
           in Inr (slope, np_sub ymean (np_mul slope xmean)))"
  by (simp add: linregress_def np_eq_extremes Let_def)

lemma linregress_empty:
  "linregress Empty_raises [] y = Inl ValueError"
  "linregress Empty_gives_NaN [] y = Inr (NaN, NaN)"
  by (simp_all add: linregress_def)

lemma np_sub_NaN: "np_sub s NaN = NaN"
  by (cases s) (simp_all add: np_sub_def)

lemma yield_index_NaN_fit:
  "yield_index (deviation strs (predicted_stress NaN NaN strn)) = Inl IndexError"
  unfolding yield_index_Inl_iff
  by (auto simp: deviation_def predicted_stress_def np_sub_NaN)

lemma take_Suc_0_nth: "0 < length xs \<Longrightarrow> take (Suc 0) xs = [xs ! 0]"
  by (cases xs) simp_all

lemma take_2_nth: "2 \<le> length xs \<Longrightarrow> take 2 xs = [xs ! 0, xs ! 1]"
  by (cases xs; cases "tl xs") (auto simp: numeral_2_eq_2)

lemma short_fit:
  assumes "10 \<le> nrows data" "nrows data < 20"
  shows "linregress scipy (take (linear_points (nrows data)) (strain_of (Displacement_mm data) g))
                    (take (linear_points (nrows data)) (stress_MPa (Load_kN data) A_0))
           = Inr (NaN, NaN)"
proof -
  have k: "linear_points (nrows data) = Suc 0"
    using assms by (simp add: linear_points_div)
  have "0 < length (strain_of (Displacement_mm data) g)" "0 < length (stress_MPa (Load_kN data) A_0)"
    using assms by (auto simp: length_stress_MPa length_strain_of)
  then show ?thesis
    unfolding k by (simp add: take_Suc_0_nth linregress_single)
qed

lemma calculate_short:
  assumes "A_0_mm2 d = Inr A_0" "10 \<le> nrows data" "nrows data < 20"
  shows "calculate_mechanical_properties scipy data d g = Inl IndexError"
  by (rule calculate_yield_error[OF assms(1) short_fit[OF assms(2,3)] yield_index_NaN_fit])

lemma calculate_tiny:
  assumes "A_0_mm2 d = Inr A_0" "nrows data < 10"
  shows "calculate_mechanical_properties Empty_raises data d g = Inl ValueError"
    and "calculate_mechanical_properties Empty_gives_NaN data d g = Inl IndexError"
proof -
  have k: "linear_points (nrows data) = 0"
    using assms(2) by (simp add: linear_points_div)
  show "calculate_mechanical_properties Empty_raises data d g = Inl ValueError"
    by (rule calculate_fit_error[OF assms(1)]) (simp add: k linregress_empty)
  have "linregress Empty_gives_NaN
          (take (linear_points (nrows data)) (strain_of (Displacement_mm data) g))
          (take (linear_points (nrows data)) (stress_MPa (Load_kN data) A_0)) = Inr (NaN, NaN)"
    by (simp add: k linregress_empty)
  from calculate_yield_error[OF assms(1) this yield_index_NaN_fit]
  show "calculate_mechanical_properties Empty_gives_NaN data d g = Inl IndexError" .
qed

lemma calculate_fails_below_twenty:
  assumes "nrows data < 20"
  shows "isl (calculate_mechanical_properties scipy data d g)"
proof (cases "A_0_mm2 d")
  case (Inl e)
  then show ?thesis by (simp add: calculate_area_error)
next
  case (Inr A_0)
  show ?thesis
  proof (cases "nrows data < 10")
    case True
    from calculate_tiny[OF Inr True] show ?thesis by (cases scipy) simp_all
  next
    case False
    with assms calculate_short[OF Inr, of data scipy g] show ?thesis by simp
  qed
qed

lemma fit_of_twenty:
  assumes "nrows data = 20"
  shows "linregress scipy (take (linear_points (nrows data)) (strain_of (Displacement_mm data) g))
                    (take (linear_points (nrows data)) (stress_MPa (Load_kN data) A_0)) =
         linregress scipy [strain_of (Displacement_mm data) g ! 0, strain_of (Displacement_mm data) g ! 1]
                    [stress_MPa (Load_kN data) A_0 ! 0, stress_MPa (Load_kN data) A_0 ! 1]"
proof -
  have k: "linear_points (nrows data) = 2"
    using assms by (simp add: linear_points_div)
  show ?thesis
    unfolding k using assms
    by (simp add: take_2_nth length_stress_MPa length_strain_of)
qed

lemma ex_strain_distinct:
  "\<not> np_eq (strain_of (Displacement_mm ex_data) (161 / 5) ! 0) (strain_of (Displacement_mm ex_data) (161 / 5) ! 1)"
  by (simp add: ex_strain)

lemma stuck_strain_equal:
  "np_eq (strain_of (Displacement_mm stuck_data) (161 / 5) ! 0) (strain_of (Displacement_mm stuck_data) (161 / 5) ! 1)"
  by (simp add: strain_of_def stuck_data_def)

subsection \<open>The perfectly linear test\<close>

lemma linear_stress_nth:
  "i < 20 \<Longrightarrow> stress_MPa (Load_kN linear_data) (Fin area_6) ! i = Fin (real i * (1000 / area_6))"
  using area_6_bounds(3) by (simp add: linear_data_def stress_MPa_def)

lemma linear_strain_nth:
  "i < 20 \<Longrightarrow> strain_of (Displacement_mm linear_data) (161 / 5) ! i = Fin (real i / 10 / (161 / 5))"
  by (simp add: linear_data_def strain_of_def)

lemma linear_fit:
  "linregress scipy (take (linear_points (nrows linear_data)) (strain_of (Displacement_mm linear_data) (161 / 5)))
              (take (linear_points (nrows linear_data)) (stress_MPa (Load_kN linear_data) (Fin area_6)))
     = Inr (Fin (322 * (1000 / area_6)), Fin 0)"
proof -
  define c :: real where "c = 1000 / area_6"
  have s: "stress_MPa (Load_kN linear_data) (Fin area_6) ! 0 = Fin 0"
          "stress_MPa (Load_kN linear_data) (Fin area_6) ! 1 = Fin c"
    using linear_stress_nth[of 0] linear_stress_nth[of 1] by (simp_all add: c_def)
  have e: "strain_of (Displacement_mm linear_data) (161 / 5) ! 0 = Fin 0"
          "strain_of (Displacement_mm linear_data) (161 / 5) ! 1 = Fin (1 / 322)"
    using linear_strain_nth[of 0] linear_strain_nth[of 1] by simp_all
  have "linregress scipy [Fin 0, Fin (1 / 322)] [Fin 0, Fin c] = Inr (Fin (322 * c), Fin 0)"
    by (simp add: linregress_pair np_mean_def np_sum_def np_sub_def Let_def field_simps)
  then show ?thesis
    unfolding fit_of_twenty[OF length_examples(2)] s e c_def by simp
qed

lemma linear_no_deviation:
  assumes "i < 20"
  shows "np_div (np_abs (np_sub (stress_MPa (Load_kN linear_data) (Fin area_6) ! i)
            (np_add (np_mul (Fin (322 * (1000 / area_6)))
                       (strain_of (Displacement_mm linear_data) (161 / 5) ! i)) (Fin 0))))
          (np_add (stress_MPa (Load_kN linear_data) (Fin area_6) ! i) (Fin (1 / 10 ^ 6))) = Fin 0"
proof -
  define c :: real where "c = 1000 / area_6"
  have c: "0 < c" using scale_6(1) by (simp only: c_def)
  have "0 \<le> real i * c" using c by simp
  then have nz: "real i * c + 1 / 10 ^ 6 \<noteq> 0" by auto
  have p: "322 * c * (real i / 10 / (161 / 5)) = real i * c" by simp
  show ?thesis
    unfolding linear_stress_nth[OF assms] linear_strain_nth[OF assms] c_def[symmetric]
    using nz by (simp add: np_sub_def p)
qed

lemma linear_below_threshold:
  assumes "i < 20"
  shows "\<not> np_gt (np_div (np_abs (np_sub (stress_MPa (Load_kN linear_data) (Fin area_6) ! i)
            (np_add (np_mul (Fin (322 * (1000 / area_6)))
                       (strain_of (Displacement_mm linear_data) (161 / 5) ! i)) (Fin 0))))
          (np_add (stress_MPa (Load_kN linear_data) (Fin area_6) ! i) (Fin (1 / 10 ^ 6)))) (Fin (5 / 100))"
  unfolding linear_no_deviation[OF assms] by simp

lemma linear_yield_index:
  "yield_index (deviation (stress_MPa (Load_kN linear_data) (Fin area_6))
      (predicted_stress (Fin (322 * (1000 / area_6))) (Fin 0)
         (strain_of (Displacement_mm linear_data) (161 / 5)))) = Inl IndexError"
proof -
  have len: "length (strain_of (Displacement_mm linear_data) (161 / 5)) =
             length (stress_MPa (Load_kN linear_data) (Fin area_6))"
    by (simp add: length_stress_MPa length_strain_of)
  have n: "length (stress_MPa (Load_kN linear_data) (Fin area_6)) = 20"
    by (simp add: length_stress_MPa length_examples)
  have "\<not> np_gt (deviation (stress_MPa (Load_kN linear_data) (Fin area_6))
      (predicted_stress (Fin (322 * (1000 / area_6))) (Fin 0)
         (strain_of (Displacement_mm linear_data) (161 / 5))) ! j) deviation_threshold" if "j < 20" for j
  proof -
    have "j < length (stress_MPa (Load_kN linear_data) (Fin area_6))" using that by (simp only: n)
    from deviation_nth[OF this len] linear_below_threshold[OF that]
    show ?thesis by (simp only: deviation_threshold_def not_False_eq_True)
  qed
  then show ?thesis
    unfolding yield_index_Inl_iff length_deviation[OF len] n by simp
qed

lemma calculate_linear_data:
  "calculate_mechanical_properties scipy linear_data 6 (161 / 5) = Inl IndexError"
  by (rule calculate_yield_error[OF A_0_mm2_6 linear_fit linear_yield_index])

lemma np_where_empty_iff:
  "np_where (map (\<lambda>d. np_gt d deviation_threshold) dev) = [] \<longleftrightarrow>
   yield_index dev = Inl IndexError"
  by (simp add: yield_index_def split: list.splits)

subsection \<open>Geometry and the caller\<close>

lemma calculate_neg_diameter:
  "calculate_mechanical_properties scipy data (- d) g =
   calculate_mechanical_properties scipy data d g"
  unfolding calculate_mechanical_properties_def A_0_mm2_neg ..

lemma empty_curve:
  assumes "nrows data = 0"
  shows "stress_MPa (Load_kN data) A_0 = []" "strain_of (Displacement_mm data) g = []"
  using assms length_stress_MPa[of data A_0] length_strain_of[of data g] by simp_all

lemma update_output_rejects:
  assumes "n_clicks \<noteq> 0" "\<not> (positive_number diameter \<and> positive_number gauge_length)"
  shows "update_output scipy process_csv_data n_clicks (Some c) filename diameter gauge_length
           displacement_rate = Inr (Message ''Inputs must be positive numbers.'')"
  using assms by (auto simp: update_output_def)

subsection \<open>Stress below the guard\<close>

lemma guarded_deviation:
  assumes "np_gt (Fin (- (1 / 10 ^ 6))) s"
  shows "np_gt (Fin 0) (np_add s (Fin (1 / 10 ^ 6)))"
    "\<not> np_gt (np_div (np_abs (np_sub s p)) (np_add s (Fin (1 / 10 ^ 6)))) (Fin 0)"
    "\<not> np_gt (np_div (np_abs (np_sub s p)) (np_add s (Fin (1 / 10 ^ 6)))) (Fin (5 / 100))"
  using assms
  by (cases s; cases p; auto simp: np_sub_def divide_le_0_iff not_less
        intro: order_trans[of _ 0])+

lemma guarded_deviation_negative:
  assumes "s < - (1 / 10 ^ 6)" "s \<noteq> p"
  shows "np_gt (Fin 0) (np_div (np_abs (np_sub (Fin s) (Fin p))) (np_add (Fin s) (Fin (1 / 10 ^ 6))))"
  using assms by (auto simp: np_sub_def divide_less_0_iff)

lemma scale_6_large: "1 / 10 ^ 6 < 1000 / area_6"
proof -
  have "1000 / 36 < 1000 / area_6"
    using area_6_bounds(1,2) by (intro divide_strict_left_mono) simp_all
  then show ?thesis by simp
qed

lemma neg_stress_rows:
  "stress_MPa (Load_kN neg_data) (Fin area_6) ! 0 = Fin (- (1000 / area_6))"
  "stress_MPa (Load_kN neg_data) (Fin area_6) ! 1 = Fin (- (1000 / area_6))"
  "stress_MPa (Load_kN neg_data) (Fin area_6) ! 2 = Fin (- (2 * (1000 / area_6)))"
  using area_6_bounds(3) by (simp_all add: neg_data_def stress_MPa_def)

lemma neg_strain_nth:
  "i < 20 \<Longrightarrow> strain_of (Displacement_mm neg_data) (161 / 5) ! i = Fin (real i / (161 / 5))"
  by (simp add: neg_data_def strain_of_def)

lemma neg_fit:
  "linregress scipy (take (linear_points (nrows neg_data)) (strain_of (Displacement_mm neg_data) (161 / 5)))
              (take (linear_points (nrows neg_data)) (stress_MPa (Load_kN neg_data) (Fin area_6)))
     = Inr (Fin 0, Fin (- (1000 / area_6)))"
proof -
  define c :: real where "c = 1000 / area_6"
  have s: "stress_MPa (Load_kN neg_data) (Fin area_6) ! 0 = Fin (- c)"
          "stress_MPa (Load_kN neg_data) (Fin area_6) ! 1 = Fin (- c)"
    using neg_stress_rows by (simp_all add: c_def)
  have e: "strain_of (Displacement_mm neg_data) (161 / 5) ! 0 = Fin 0"
          "strain_of (Displacement_mm neg_data) (161 / 5) ! 1 = Fin (5 / 161)"
    using neg_strain_nth[of 0] neg_strain_nth[of 1] by simp_all
  have "linregress scipy [Fin 0, Fin (5 / 161)] [Fin (- c), Fin (- c)] = Inr (Fin 0, Fin (- c))"
    by (simp add: linregress_pair np_mean_def np_sum_def np_sub_def Let_def)
  then show ?thesis
    unfolding fit_of_twenty[OF length_examples(5)] s e c_def by simp
qed

lemma neg_deviation_0:
  "deviation (stress_MPa (Load_kN neg_data) (Fin area_6))
     (predicted_stress (Fin 0) (Fin (- (1000 / area_6)))
        (strain_of (Displacement_mm neg_data) (161 / 5))) ! 0 = Fin 0"
proof -
  define c :: real where "c = 1000 / area_6"
  have c: "1 / 10 ^ 6 < c" using scale_6_large by (simp only: c_def)
  then have nz: "- c + 1 / 10 ^ 6 \<noteq> 0" by auto
  have len: "length (strain_of (Displacement_mm neg_data) (161 / 5)) =
             length (stress_MPa (Load_kN neg_data) (Fin area_6))"
    by (simp add: length_stress_MPa length_strain_of)
  have n: "0 < length (stress_MPa (Load_kN neg_data) (Fin area_6))"
    by (simp add: length_stress_MPa length_examples)
  have s: "stress_MPa (Load_kN neg_data) (Fin area_6) ! 0 = Fin (- c)"
    using neg_stress_rows by (simp add: c_def)
  have e: "strain_of (Displacement_mm neg_data) (161 / 5) ! 0 = Fin 0"
    using neg_strain_nth[of 0] by simp
  show ?thesis
    unfolding deviation_nth[OF n len] s e c_def[symmetric]
    using nz by (simp add: np_sub_def)
qed

lemma neg_stress_below: "np_gt (Fin (- (1 / 10 ^ 6))) (stress_MPa (Load_kN neg_data) (Fin area_6) ! 0)"
  using scale_6_large neg_stress_rows by simp

lemma neg_deviation_2:
  "np_gt (Fin (- (1 / 10 ^ 6))) (stress_MPa (Load_kN neg_data) (Fin area_6) ! 2)"
  "stress_MPa (Load_kN neg_data) (Fin area_6) ! 2 = Fin (- (2 * (1000 / area_6)))"
  "np_add (np_mul (Fin 0) (strain_of (Displacement_mm neg_data) (161 / 5) ! 2))
      (Fin (- (1000 / area_6))) = Fin (- (1000 / area_6))"
  "- (2 * (1000 / area_6)) \<noteq> - (1000 / area_6)"
proof -
  define c :: real where "c = 1000 / area_6"
  have c: "1 / 10 ^ 6 < c" using scale_6_large by (simp only: c_def)
  have s: "stress_MPa (Load_kN neg_data) (Fin area_6) ! 2 = Fin (- (2 * c))"
    using neg_stress_rows by (simp add: c_def)
  show "np_gt (Fin (- (1 / 10 ^ 6))) (stress_MPa (Load_kN neg_data) (Fin area_6) ! 2)"
    unfolding s using c by simp
  show "stress_MPa (Load_kN neg_data) (Fin area_6) ! 2 = Fin (- (2 * (1000 / area_6)))"
    by (rule neg_stress_rows)
  show "np_add (np_mul (Fin 0) (strain_of (Displacement_mm neg_data) (161 / 5) ! 2))
      (Fin (- (1000 / area_6))) = Fin (- (1000 / area_6))"
    using neg_strain_nth[of 2] by simp
  have "(0::real) < 1 / 10 ^ 6" by simp
  with c have "0 < c" by (rule less_trans[rotated])
  then have "- (2 * c) \<noteq> - c" by simp
  then show "- (2 * (1000 / area_6)) \<noteq> - (1000 / area_6)"
    unfolding c_def .
qed

lemma zero_den_load: "as_float64 (Load_kN zero_den_data) ! 2 = Fin (- (pi * 3 ^ 2) / 10 ^ 9)"
  by (simp add: zero_den_data_def ex_rows_def)

lemma zero_den_stress:
  "stress_MPa (Load_kN zero_den_data) (Fin area_6) ! 0 = Fin 0"
  "stress_MPa (Load_kN zero_den_data) (Fin area_6) ! 1 = Fin 0"
  "stress_MPa (Load_kN zero_den_data) (Fin area_6) ! 2 = Fin (- (1 / 10 ^ 6))"
  by (simp_all add: zero_den_data_def ex_rows_def stress_MPa_def area_6_def)

lemma zero_den_strain:
  "strain_of (Displacement_mm zero_den_data) (161 / 5) ! 0 = Fin 0"
  "strain_of (Displacement_mm zero_den_data) (161 / 5) ! 1 = Fin (5 / 161)"
  "strain_of (Displacement_mm zero_den_data) (161 / 5) ! 2 = Fin (10 / 161)"
  by (simp_all add: zero_den_data_def ex_rows_def strain_of_def)

lemma zero_den_fit:
  "linregress scipy (take (linear_points (nrows zero_den_data))
                 (strain_of (Displacement_mm zero_den_data) (161 / 5)))
              (take (linear_points (nrows zero_den_data))
                 (stress_MPa (Load_kN zero_den_data) (Fin area_6)))
     = Inr (Fin 0, Fin 0)"
  unfolding fit_of_twenty[OF length_examples(7)] zero_den_stress zero_den_strain
  by (simp add: linregress_pair np_mean_def np_sum_def np_sub_def Let_def)

lemma zero_den_deviation:
  "deviation (stress_MPa (Load_kN zero_den_data) (Fin area_6))
     (predicted_stress (Fin 0) (Fin 0) (strain_of (Displacement_mm zero_den_data) (161 / 5))) ! 2 = PInf"
proof -
  have len: "length (strain_of (Displacement_mm zero_den_data) (161 / 5)) =
             length (stress_MPa (Load_kN zero_den_data) (Fin area_6))"
    by (simp add: length_stress_MPa length_strain_of)
  have n: "2 < length (stress_MPa (Load_kN zero_den_data) (Fin area_6))"
    by (simp add: length_stress_MPa length_examples)
  show ?thesis
    unfolding deviation_nth[OF n len] zero_den_stress zero_den_strain
    by (simp add: np_sub_def)
qed

subsection \<open>A test with a missing row\<close>

lemma np_max_has_NaN: "NaN \<in> set xs \<Longrightarrow> np_max xs = Inr NaN"
  by (cases xs) (auto simp: foldl_np_maximum_NaN foldl_np_maximum_has_NaN)

lemma nan_displacement: "Displacement_mm nan_data ! 5 = NaN"
  by (simp add: nan_data_def ex_rows_def)

lemma nan_stress:
  "stress_MPa (Load_kN nan_data) (Fin area_6) ! 0 = Fin 0"
  "stress_MPa (Load_kN nan_data) (Fin area_6) ! 1 = Fin 0"
  "stress_MPa (Load_kN nan_data) (Fin area_6) ! 2 = Fin (1000 / area_6)"
  "stress_MPa (Load_kN nan_data) (Fin area_6) ! 5 = NaN"
  using area_6_bounds(3) by (simp_all add: nan_data_def ex_rows_def stress_MPa_def)

lemma nan_strain:
  "strain_of (Displacement_mm nan_data) (161 / 5) ! 0 = Fin 0"
  "strain_of (Displacement_mm nan_data) (161 / 5) ! 1 = Fin (5 / 161)"
  "strain_of (Displacement_mm nan_data) (161 / 5) ! 2 = Fin (10 / 161)"
  by (simp_all add: nan_data_def ex_rows_def strain_of_def)

lemma nan_members:
  "NaN \<in> set (Displacement_mm nan_data)" "NaN \<in> set (stress_MPa (Load_kN nan_data) (Fin area_6))"
proof -
  have "5 < length (Displacement_mm nan_data)"
    by (simp add: length_Displacement_mm length_examples)
  from nth_mem[OF this] show "NaN \<in> set (Displacement_mm nan_data)"
    unfolding nan_displacement by simp
  have "5 < length (stress_MPa (Load_kN nan_data) (Fin area_6))"
    by (simp add: length_stress_MPa length_examples)
  from nth_mem[OF this] show "NaN \<in> set (stress_MPa (Load_kN nan_data) (Fin area_6))"
    unfolding nan_stress by simp
qed

lemma nan_fit:
  "linregress scipy (take (linear_points (nrows nan_data)) (strain_of (Displacement_mm nan_data) (161 / 5)))
              (take (linear_points (nrows nan_data)) (stress_MPa (Load_kN nan_data) (Fin area_6)))
     = Inr (Fin 0, Fin 0)"
  unfolding fit_of_twenty[OF length_examples(8)] nan_stress nan_strain
  by (simp add: linregress_pair np_mean_def np_sum_def np_sub_def Let_def)

lemma nan_yield_index:
  "yield_index (deviation (stress_MPa (Load_kN nan_data) (Fin area_6))
      (predicted_stress (Fin 0) (Fin 0) (strain_of (Displacement_mm nan_data) (161 / 5)))) = Inr 2"
proof -
  define c :: real where "c = 1000 / area_6"
  have c: "0 < c" "1 / 10 ^ 6 < 19 * c" using scale_6 by (simp_all only: c_def)
  then have nz: "c + 1 / 10 ^ 6 \<noteq> 0" by auto
  have len: "length (strain_of (Displacement_mm nan_data) (161 / 5)) =
             length (stress_MPa (Load_kN nan_data) (Fin area_6))"
    by (simp add: length_stress_MPa length_strain_of)
  have n: "length (stress_MPa (Load_kN nan_data) (Fin area_6)) = 20"
    by (simp add: length_stress_MPa length_examples)
  have d0: "deviation (stress_MPa (Load_kN nan_data) (Fin area_6))
      (predicted_stress (Fin 0) (Fin 0) (strain_of (Displacement_mm nan_data) (161 / 5))) ! 0 = Fin 0"
    by (subst deviation_nth[OF _ len]) (simp_all add: n nan_stress nan_strain np_sub_def)
  have d1: "deviation (stress_MPa (Load_kN nan_data) (Fin area_6))
      (predicted_stress (Fin 0) (Fin 0) (strain_of (Displacement_mm nan_data) (161 / 5))) ! 1 = Fin 0"
    using nan_stress(2) nan_strain(2)
    by (subst deviation_nth[OF _ len]) (simp_all add: n np_sub_def)
  have d2: "deviation (stress_MPa (Load_kN nan_data) (Fin area_6))
      (predicted_stress (Fin 0) (Fin 0) (strain_of (Displacement_mm nan_data) (161 / 5))) ! 2 =
      Fin (c / (c + 1 / 10 ^ 6))"
    using c(1) nz nan_stress(3) nan_strain(3)
    by (subst deviation_nth[OF _ len]) (simp_all add: n np_sub_def c_def)
  have gt: "5 / 100 < c / (c + 1 / 10 ^ 6)"
    using c by (simp add: field_simps)
  show ?thesis
    unfolding yield_index_Inr_iff length_deviation[OF len] n
    using d0 d1 d2 gt by (auto simp: deviation_threshold_def less_2_cases_iff)
qed

lemma calculate_nan_data:
  "calculate_mechanical_properties scipy nan_data 6 (161 / 5) = Inr nan_res"
  unfolding calculate_Inr_iff
  apply (intro exI conjI)
       apply (rule A_0_mm2_6)
      apply (rule nan_fit)
     apply (rule nan_yield_index)
    apply (rule np_max_has_NaN[OF nan_members(2)])
   apply (rule np_max_has_NaN[OF nan_members(1)])
  apply (simp add: nan_res_def nan_stress nan_strain)
  apply (simp add: area_6_def)
  done

subsection \<open>The parts of a result\<close>

lemma calculate_Inr_D:
  assumes "calculate_mechanical_properties scipy data d g = Inr res"
  obtains slope intercept yi dmax where
    "A_0_mm2 d = Inr (area_mm2 res)"
    "linregress scipy
       (take (linear_points (nrows data)) (strain_of (Displacement_mm data) g))
       (take (linear_points (nrows data)) (stress_MPa (Load_kN data) (area_mm2 res)))
     = Inr (slope, intercept)"
    "yield_index (deviation (stress_MPa (Load_kN data) (area_mm2 res))
        (predicted_stress slope intercept (strain_of (Displacement_mm data) g))) = Inr yi"
    "np_max (stress_MPa (Load_kN data) (area_mm2 res)) = Inr (uts_MPa res)"
    "np_max (Displacement_mm data) = Inr dmax"
    "failure_strain_percent res = np_mul (np_div dmax (Fin g)) (Fin 100)"
    "youngs_modulus_MPa res =
       np_div (stress_MPa (Load_kN data) (area_mm2 res) ! yi)
              (strain_of (Displacement_mm data) g ! yi)"
    "yield_stress_MPa res = stress_MPa (Load_kN data) (area_mm2 res) ! yi"
    "stress (stress_strain_data res) = stress_MPa (Load_kN data) (area_mm2 res)"
    "strain (stress_strain_data res) = strain_of (Displacement_mm data) g"
  using assms unfolding calculate_Inr_iff by auto

lemma ex_res_area: "area_mm2 ex_res = Fin area_6" "area_mm2 nan_res = Fin area_6"
  by (simp_all add: ex_res_def nan_res_def area_6_def)

section \<open>The yield index\<close>

text \<open>
  Claim C1. Whenever the computation succeeds, the yield index is the first index, counted
  from 0, at which the relative deviation
  \<open>|stress[i] - (slope * strain[i] + intercept)| / (stress[i] + 1e-6)\<close> exceeds 0.05,
  where slope and intercept come from the fit over the elastic prefix: the index is in
  range, the deviation exceeds the threshold there, and it does not at any smaller index.
  The yield stress of the result is the stress at that index. The stress array is the
  one built with the area of the result.
\<close>

theorem yield_index_is_first_deviation:
  assumes "calculate_mechanical_properties scipy data d g = Inr res"
  shows "\<exists>slope intercept yi.
           A_0_mm2 d = Inr (area_mm2 res) \<and>
           linregress scipy
             (take (linear_points (nrows data)) (strain_of (Displacement_mm data) g))
             (take (linear_points (nrows data)) (stress_MPa (Load_kN data) (area_mm2 res)))
             = Inr (slope, intercept) \<and>
           yield_index (deviation (stress_MPa (Load_kN data) (area_mm2 res))
                          (predicted_stress slope intercept (strain_of (Displacement_mm data) g)))
             = Inr yi \<and>
           yield_stress_MPa res = stress_MPa (Load_kN data) (area_mm2 res) ! yi \<and>
           yi < nrows data \<and>
           np_gt (np_div (np_abs (np_sub (stress_MPa (Load_kN data) (area_mm2 res) ! yi)
                     (np_add (np_mul slope (strain_of (Displacement_mm data) g ! yi)) intercept)))
                   (np_add (stress_MPa (Load_kN data) (area_mm2 res) ! yi) (Fin (1 / 10 ^ 6))))
                 (Fin (5 / 100)) \<and>
           (\<forall>j<yi. \<not> np_gt (np_div (np_abs (np_sub (stress_MPa (Load_kN data) (area_mm2 res) ! j)
                     (np_add (np_mul slope (strain_of (Displacement_mm data) g ! j)) intercept)))
                   (np_add (stress_MPa (Load_kN data) (area_mm2 res) ! j) (Fin (1 / 10 ^ 6))))
                 (Fin (5 / 100)))"
proof -
  let ?strs = "stress_MPa (Load_kN data) (area_mm2 res)"
  let ?strn = "strain_of (Displacement_mm data) g"
  have len: "length ?strn = length ?strs"
    by (rule length_curve)
  have n: "length ?strs = nrows data"
    by (simp add: length_stress_MPa)
  from assms obtain slope intercept yi where
    area: "A_0_mm2 d = Inr (area_mm2 res)" and
    fit: "linregress scipy (take (linear_points (nrows data)) ?strn)
            (take (linear_points (nrows data)) ?strs) = Inr (slope, intercept)" and
    yi: "yield_index (deviation ?strs (predicted_stress slope intercept ?strn)) = Inr yi" and
    ys: "yield_stress_MPa res = ?strs ! yi"
    by (rule calculate_Inr_D)
  from yi have first: "yi < nrows data"
      "np_gt (deviation ?strs (predicted_stress slope intercept ?strn) ! yi) deviation_threshold"
      "\<forall>j<yi. \<not> np_gt (deviation ?strs (predicted_stress slope intercept ?strn) ! j) deviation_threshold"
    unfolding yield_index_Inr_iff length_deviation[OF len] n by auto
  have dev: "deviation ?strs (predicted_stress slope intercept ?strn) ! j =
      np_div (np_abs (np_sub (?strs ! j) (np_add (np_mul slope (?strn ! j)) intercept)))
             (np_add (?strs ! j) (Fin (1 / 10 ^ 6)))" if "j \<le> yi" for j
    using that first(1) by (intro deviation_nth[OF _ len]) (simp add: n)
  show ?thesis
    apply (rule exI[of _ slope], rule exI[of _ intercept], rule exI[of _ yi])
    using area fit yi ys first dev by (simp add: deviation_threshold_def)
qed

theorem yield_index_is_first_deviation_witness:
  "calculate_mechanical_properties Empty_gives_NaN ex_data 6 (161 / 5) = Inr ex_res \<and>
   A_0_mm2 6 = Inr (Fin area_6) \<and>
   linregress Empty_gives_NaN
     (take (linear_points (nrows ex_data)) (strain_of (Displacement_mm ex_data) (161 / 5)))
     (take (linear_points (nrows ex_data)) (stress_MPa (Load_kN ex_data) (Fin area_6)))
     = Inr (Fin 0, Fin 0) \<and>
   yield_index (deviation (stress_MPa (Load_kN ex_data) (Fin area_6))
      (predicted_stress (Fin 0) (Fin 0) (strain_of (Displacement_mm ex_data) (161 / 5)))) = Inr 2 \<and>
   yield_stress_MPa ex_res = stress_MPa (Load_kN ex_data) (Fin area_6) ! 2 \<and>
   np_gt (np_div (np_abs (np_sub (stress_MPa (Load_kN ex_data) (Fin area_6) ! 2)
             (np_add (np_mul (Fin 0) (strain_of (Displacement_mm ex_data) (161 / 5) ! 2)) (Fin 0))))
           (np_add (stress_MPa (Load_kN ex_data) (Fin area_6) ! 2) (Fin (1 / 10 ^ 6))))
         (Fin (5 / 100)) \<and>
   \<not> np_gt (np_div (np_abs (np_sub (stress_MPa (Load_kN ex_data) (Fin area_6) ! 1)
             (np_add (np_mul (Fin 0) (strain_of (Displacement_mm ex_data) (161 / 5) ! 1)) (Fin 0))))
           (np_add (stress_MPa (Load_kN ex_data) (Fin area_6) ! 1) (Fin (1 / 10 ^ 6))))
         (Fin (5 / 100)) \<and>
   \<not> np_gt (np_div (np_abs (np_sub (stress_MPa (Load_kN ex_data) (Fin area_6) ! 0)
             (np_add (np_mul (Fin 0) (strain_of (Displacement_mm ex_data) (161 / 5) ! 0)) (Fin 0))))
           (np_add (stress_MPa (Load_kN ex_data) (Fin area_6) ! 0) (Fin (1 / 10 ^ 6))))
         (Fin (5 / 100))"
proof -
  from yield_index_is_first_deviation[OF calculate_ex_data[of Empty_gives_NaN]]
  obtain slope intercept yi where
    fit: "linregress Empty_gives_NaN
            (take (linear_points (nrows ex_data)) (strain_of (Displacement_mm ex_data) (161 / 5)))
            (take (linear_points (nrows ex_data)) (stress_MPa (Load_kN ex_data) (Fin area_6)))
          = Inr (slope, intercept)" and
    yi: "yield_index (deviation (stress_MPa (Load_kN ex_data) (Fin area_6))
           (predicted_stress slope intercept (strain_of (Displacement_mm ex_data) (161 / 5)))) = Inr yi" and
    rest: "yield_stress_MPa ex_res = stress_MPa (Load_kN ex_data) (Fin area_6) ! yi"
      "np_gt (np_div (np_abs (np_sub (stress_MPa (Load_kN ex_data) (Fin area_6) ! yi)
             (np_add (np_mul slope (strain_of (Displacement_mm ex_data) (161 / 5) ! yi)) intercept)))
           (np_add (stress_MPa (Load_kN ex_data) (Fin area_6) ! yi) (Fin (1 / 10 ^ 6))))
         (Fin (5 / 100))"
      "\<forall>j<yi. \<not> np_gt (np_div (np_abs (np_sub (stress_MPa (Load_kN ex_data) (Fin area_6) ! j)
             (np_add (np_mul slope (strain_of (Displacement_mm ex_data) (161 / 5) ! j)) intercept)))
           (np_add (stress_MPa (Load_kN ex_data) (Fin area_6) ! j) (Fin (1 / 10 ^ 6))))
         (Fin (5 / 100))"
    unfolding ex_res_area by blast
  from fit have si: "slope = Fin 0" "intercept = Fin 0"
    unfolding ex_fit by auto
  from yi have y2: "yi = 2"
    unfolding si ex_yield_index by simp
  have "(0::nat) < 2" "(1::nat) < 2" by simp_all
  with rest(3) show ?thesis
    using calculate_ex_data A_0_mm2_6 ex_fit ex_yield_index rest(1,2)
    unfolding si y2 by blast
qed

lemma stress_MPa_nth_float:
  "i < length ls \<Longrightarrow>
   stress_MPa (Floats ls) A ! i = np_div (np_mul (ls ! i) (Fin 1000)) A"
  by (simp add: stress_MPa_def)

lemma stress_MPa_nth_int:
  "i < length ws \<Longrightarrow>
   stress_MPa (Ints t ws) A ! i = np_div (Fin (real_of_int (int_value t (ws ! i * 1000)))) A"
  by (simp add: stress_MPa_def)

lemma strain_of_nth:
  "i < length ds \<Longrightarrow> strain_of ds g ! i = np_div (ds ! i) (Fin g)"
  by (simp add: strain_of_def)

lemma calculate_Inr_curve:
  assumes "calculate_mechanical_properties scipy data d g = Inr res"
  shows "A_0_mm2 d = Inr (area_mm2 res)"
    and "stress (stress_strain_data res) = stress_MPa (Load_kN data) (area_mm2 res)"
    and "strain (stress_strain_data res) = strain_of (Displacement_mm data) g"
  using assms unfolding calculate_Inr_iff by auto

section \<open>The curve in the result\<close>

text \<open>
  Claim C9. Whenever the computation succeeds on \<open>n\<close> rows, the stress and the strain
  list of the result both have length \<open>n\<close>, and entry \<open>i\<close> of each is computed from
  row \<open>i\<close> of the input: the stress from the load of the row, multiplied by 1000 as a
  float or as an integer of the column's dtype and divided by the area, the strain
  from its displacement.
\<close>

theorem curve_lengths_match_input:
  assumes "calculate_mechanical_properties scipy data d g = Inr res"
  shows "length (stress (stress_strain_data res)) = nrows data \<and>
         length (strain (stress_strain_data res)) = nrows data \<and>
         (\<forall>rows. data = Float_loads rows \<longrightarrow>
            (\<forall>i<length rows.
               stress (stress_strain_data res) ! i =
                 np_div (np_mul (fst (rows ! i)) (Fin 1000)) (area_mm2 res) \<and>
               strain (stress_strain_data res) ! i = np_div (snd (rows ! i)) (Fin g))) \<and>
         (\<forall>t rows. data = Int_loads t rows \<longrightarrow>
            (\<forall>i<length rows.
               stress (stress_strain_data res) ! i =
                 np_div (Fin (real_of_int (int_value t (fst (rows ! i) * 1000)))) (area_mm2 res) \<and>
               strain (stress_strain_data res) ! i = np_div (snd (rows ! i)) (Fin g)))"
proof -
  note s = calculate_Inr_curve(2)[OF assms] and e = calculate_Inr_curve(3)[OF assms]
  have 1: "length (stress (stress_strain_data res)) = nrows data"
    unfolding s by (rule length_stress_MPa)
  have 2: "length (strain (stress_strain_data res)) = nrows data"
    unfolding e by (simp add: length_strain_of)
  have 3: "stress (stress_strain_data res) ! i =
             np_div (np_mul (fst (rows ! i)) (Fin 1000)) (area_mm2 res) \<and>
           strain (stress_strain_data res) ! i = np_div (snd (rows ! i)) (Fin g)"
    if "data = Float_loads rows" "i < length rows" for rows i
    unfolding s e using that
    by (simp add: stress_MPa_nth_float strain_of_nth)
  have 4: "stress (stress_strain_data res) ! i =
             np_div (Fin (real_of_int (int_value t (fst (rows ! i) * 1000)))) (area_mm2 res) \<and>
           strain (stress_strain_data res) ! i = np_div (snd (rows ! i)) (Fin g)"
    if "data = Int_loads t rows" "i < length rows" for t rows i
    unfolding s e using that
    by (simp add: stress_MPa_nth_int strain_of_nth)
  from 1 2 3 4 show ?thesis by blast
qed

theorem curve_lengths_match_input_witness:
  "calculate_mechanical_properties Empty_gives_NaN ex_data 6 (161 / 5) = Inr ex_res \<and>
   length (stress (stress_strain_data ex_res)) = 20 \<and>
   length (strain (stress_strain_data ex_res)) = 20 \<and>
   nrows ex_data = 20 \<and> ex_data = Float_loads ex_rows \<and> ex_rows ! 10 = (Fin 30, Fin 10) \<and>
   stress (stress_strain_data ex_res) ! 10 = np_div (np_mul (Fin 30) (Fin 1000)) (Fin (pi * 3 ^ 2)) \<and>
   strain (stress_strain_data ex_res) ! 10 = np_div (Fin 10) (Fin (161 / 5))"
proof -
  have n: "nrows ex_data = 20" "length ex_rows = 20" by (simp_all add: ex_data_def ex_rows_def)
  have r: "ex_rows ! 10 = (Fin 30, Fin 10)" by (simp add: ex_rows_def)
  have a: "area_mm2 ex_res = Fin (pi * 3 ^ 2)" by (simp add: ex_res_def)
  have lt: "(10::nat) < 20" by simp
  note cl = curve_lengths_match_input[OF calculate_ex_data[of Empty_gives_NaN], unfolded a n]
  from cl have l: "length (stress (stress_strain_data ex_res)) = 20"
      "length (strain (stress_strain_data ex_res)) = 20" by blast+
  from cl ex_data_def have "\<forall>i<length ex_rows.
       stress (stress_strain_data ex_res) ! i =
         np_div (np_mul (fst (ex_rows ! i)) (Fin 1000)) (Fin (pi * 3 ^ 2)) \<and>
       strain (stress_strain_data ex_res) ! i = np_div (snd (ex_rows ! i)) (Fin (161 / 5))"
    by blast
  with lt have "stress (stress_strain_data ex_res) ! 10 =
         np_div (np_mul (fst (ex_rows ! 10)) (Fin 1000)) (Fin (pi * 3 ^ 2)) \<and>
       strain (stress_strain_data ex_res) ! 10 = np_div (snd (ex_rows ! 10)) (Fin (161 / 5))"
    unfolding n by blast
  then have "stress (stress_strain_data ex_res) ! 10 = np_div (np_mul (Fin 30) (Fin 1000)) (Fin (pi * 3 ^ 2))"
            "strain (stress_strain_data ex_res) ! 10 = np_div (Fin 10) (Fin (161 / 5))"
    unfolding r fst_conv snd_conv by blast+
  with l n r ex_data_def calculate_ex_data[of Empty_gives_NaN] show ?thesis by blast
qed

lemma calculate_Inr_uts:
  assumes "calculate_mechanical_properties scipy data d g = Inr res"
  shows "np_max (stress_MPa (Load_kN data) (area_mm2 res)) = Inr (uts_MPa res)"
  using assms unfolding calculate_Inr_iff by auto

lemma calculate_Inr_failure:
  assumes "calculate_mechanical_properties scipy data d g = Inr res"
  shows "\<exists>dmax. np_max (Displacement_mm data) = Inr dmax \<and>
           failure_strain_percent res = np_mul (np_div dmax (Fin g)) (Fin 100)"
  using assms unfolding calculate_Inr_iff by auto

lemma calculate_Inr_yield:
  assumes "calculate_mechanical_properties scipy data d g = Inr res"
  shows "\<exists>slope intercept yi.
           linregress scipy
             (take (linear_points (nrows data)) (strain_of (Displacement_mm data) g))
             (take (linear_points (nrows data)) (stress_MPa (Load_kN data) (area_mm2 res)))
             = Inr (slope, intercept) \<and>
           yield_index (deviation (stress_MPa (Load_kN data) (area_mm2 res))
                          (predicted_stress slope intercept (strain_of (Displacement_mm data) g)))
             = Inr yi \<and>
           yi < nrows data \<and>
           youngs_modulus_MPa res =
             np_div (stress_MPa (Load_kN data) (area_mm2 res) ! yi)
                    (strain_of (Displacement_mm data) g ! yi) \<and>
           yield_stress_MPa res = stress_MPa (Load_kN data) (area_mm2 res) ! yi"
proof -
  from assms obtain slope intercept yi where
    fit: "linregress scipy
            (take (linear_points (nrows data)) (strain_of (Displacement_mm data) g))
            (take (linear_points (nrows data)) (stress_MPa (Load_kN data) (area_mm2 res)))
          = Inr (slope, intercept)" and
    yi: "yield_index (deviation (stress_MPa (Load_kN data) (area_mm2 res))
            (predicted_stress slope intercept (strain_of (Displacement_mm data) g))) = Inr yi" and
    ym: "youngs_modulus_MPa res =
           np_div (stress_MPa (Load_kN data) (area_mm2 res) ! yi)
                  (strain_of (Displacement_mm data) g ! yi)" and
    ys: "yield_stress_MPa res = stress_MPa (Load_kN data) (area_mm2 res) ! yi"
    by (rule calculate_Inr_D)
  have "yi < nrows data"
    using yi unfolding yield_index_Inr_iff
    by (simp add: length_deviation length_stress_MPa length_strain_of)
  with fit yi ym ys show ?thesis by blast
qed

section \<open>Ultimate tensile strength and failure strain\<close>

text \<open>
  Claim C8. Whenever the computation succeeds, the ultimate tensile strength of the result
  is \<^verbatim>\<open>np.max\<close> of the whole stress array: an entry of the array that no entry at any
  index exceeds (NaN if the array holds a NaN); for finite stresses it is their maximum.
  The stress array is the one of the returned curve, built with the area of the result.
\<close>

theorem uts_is_max_stress:
  assumes "calculate_mechanical_properties scipy data d g = Inr res"
  shows "A_0_mm2 d = Inr (area_mm2 res) \<and>
         np_max (stress_MPa (Load_kN data) (area_mm2 res)) = Inr (uts_MPa res) \<and>
         stress (stress_strain_data res) = stress_MPa (Load_kN data) (area_mm2 res) \<and>
         (NaN \<in> set (stress_MPa (Load_kN data) (area_mm2 res)) \<longrightarrow> uts_MPa res = NaN) \<and>
         (NaN \<notin> set (stress_MPa (Load_kN data) (area_mm2 res)) \<longrightarrow>
            (\<exists>i<nrows data. stress_MPa (Load_kN data) (area_mm2 res) ! i = uts_MPa res) \<and>
            (\<forall>i<nrows data. \<not> np_gt (stress_MPa (Load_kN data) (area_mm2 res) ! i) (uts_MPa res))) \<and>
         (\<forall>rs. stress_MPa (Load_kN data) (area_mm2 res) = map Fin rs \<longrightarrow>
            uts_MPa res = Fin (Max (set rs)))"
proof -
  let ?strs = "stress_MPa (Load_kN data) (area_mm2 res)"
  have n: "length ?strs = nrows data" by (simp add: length_stress_MPa)
  note a = calculate_Inr_curve(1)[OF assms]
  note s = calculate_Inr_curve(2)[OF assms]
  note m = calculate_Inr_uts[OF assms]
  note g = np_max_greatest[OF m]
  have "\<exists>i<nrows data. ?strs ! i = uts_MPa res" if "NaN \<notin> set ?strs"
    using g that n by (metis in_set_conv_nth)
  moreover have "\<forall>i<nrows data. \<not> np_gt (?strs ! i) (uts_MPa res)" if "NaN \<notin> set ?strs"
    using g that n by (metis nth_mem)
  moreover have "uts_MPa res = Fin (Max (set rs))" if "?strs = map Fin rs" for rs
  proof -
    have "rs \<noteq> []" using m that by auto
    from np_max_Fin[OF this] m that show ?thesis by simp
  qed
  ultimately show ?thesis using a m s g by blast
qed

theorem uts_is_max_stress_witness:
  "calculate_mechanical_properties Empty_gives_NaN ex_data 6 (161 / 5) = Inr ex_res \<and>
   A_0_mm2 6 = Inr (Fin area_6) \<and>
   np_max (stress_MPa (Load_kN ex_data) (Fin area_6)) = Inr (uts_MPa ex_res) \<and>
   uts_MPa ex_res = Fin (30000 / (pi * 3 ^ 2)) \<and>
   stress (stress_strain_data ex_res) ! 10 = Fin (30000 / (pi * 3 ^ 2)) \<and>
   nrows ex_data = 20 \<and>
   calculate_mechanical_properties Empty_gives_NaN nan_data 6 (161 / 5) = Inr nan_res \<and>
   NaN \<in> set (stress_MPa (Load_kN nan_data) (Fin area_6)) \<and> uts_MPa nan_res = NaN"
proof -
  note ex = uts_is_max_stress[OF calculate_ex_data[of Empty_gives_NaN], unfolded ex_res_area]
  note nn = uts_is_max_stress[OF calculate_nan_data[of Empty_gives_NaN], unfolded ex_res_area]
  have "stress_MPa (Load_kN ex_data) (Fin area_6) ! 10 = Fin (30000 / (pi * 3 ^ 2))"
    unfolding ex_stress by (simp add: area_6_def)
  with ex have "stress (stress_strain_data ex_res) ! 10 = Fin (30000 / (pi * 3 ^ 2))"
    by simp
  moreover have "nrows ex_data = 20" by (simp add: ex_data_def ex_rows_def)
  moreover have "uts_MPa ex_res = Fin (30000 / (pi * 3 ^ 2))" by (simp add: ex_res_def)
  moreover from nn nan_members(2) have "uts_MPa nan_res = NaN" by blast
  moreover from ex have "A_0_mm2 6 = Inr (Fin area_6)"
    "np_max (stress_MPa (Load_kN ex_data) (Fin area_6)) = Inr (uts_MPa ex_res)" by blast+
  ultimately show ?thesis
    using calculate_ex_data[of Empty_gives_NaN] calculate_nan_data[of Empty_gives_NaN]
      nan_members(2)
    by blast
qed

text \<open>
  Claim C7. Whenever the computation succeeds, the failure strain in percent is the largest
  displacement of the whole displacement column, divided by the gauge length and
  multiplied by 100. The largest displacement need not be in the last row, nor in the
  row of the largest stress.
\<close>

theorem failure_strain_from_max_displacement:
  assumes "calculate_mechanical_properties scipy data d g = Inr res"
  shows "\<exists>dmax. np_max (Displacement_mm data) = Inr dmax \<and>
           failure_strain_percent res = np_mul (np_div dmax (Fin g)) (Fin 100) \<and>
           (NaN \<in> set (Displacement_mm data) \<longrightarrow> dmax = NaN) \<and>
           (NaN \<notin> set (Displacement_mm data) \<longrightarrow>
              (\<exists>i<nrows data. Displacement_mm data ! i = dmax) \<and>
              (\<forall>i<nrows data. \<not> np_gt (Displacement_mm data ! i) dmax)) \<and>
           (\<forall>xs. Displacement_mm data = map Fin xs \<and> g \<noteq> 0 \<longrightarrow>
              failure_strain_percent res = Fin (Max (set xs) / g * 100))"
proof -
  from calculate_Inr_failure[OF assms]
  obtain dmax where m: "np_max (Displacement_mm data) = Inr dmax" and
    f: "failure_strain_percent res = np_mul (np_div dmax (Fin g)) (Fin 100)"
    by blast
  note gr = np_max_greatest[OF m]
  have n: "length (Displacement_mm data) = nrows data"
    by (rule length_Displacement_mm)
  have "\<exists>i<nrows data. Displacement_mm data ! i = dmax" if "NaN \<notin> set (Displacement_mm data)"
    using gr that n by (metis in_set_conv_nth)
  moreover have "\<forall>i<nrows data. \<not> np_gt (Displacement_mm data ! i) dmax"
    if "NaN \<notin> set (Displacement_mm data)"
    using gr that n by (metis nth_mem)
  moreover have "failure_strain_percent res = Fin (Max (set xs) / g * 100)"
    if "Displacement_mm data = map Fin xs \<and> g \<noteq> 0" for xs
  proof -
    have "xs \<noteq> []" using m that by auto
    from np_max_Fin[OF this] m that have "dmax = Fin (Max (set xs))" by simp
    then show ?thesis using f that by simp
  qed
  ultimately show ?thesis using m f gr by blast
qed

theorem failure_strain_from_max_displacement_witness:
  "calculate_mechanical_properties Empty_gives_NaN ex_data 6 (161 / 5) = Inr ex_res \<and>
   np_max (Displacement_mm ex_data) = Inr (Fin 25) \<and>
   failure_strain_percent ex_res = np_mul (np_div (Fin 25) (Fin (161 / 5))) (Fin 100) \<and>
   Displacement_mm ex_data ! 12 = Fin 25 \<and> last (Displacement_mm ex_data) = Fin 19 \<and>
   uts_MPa ex_res = stress (stress_strain_data ex_res) ! 10 \<and>
   calculate_mechanical_properties Empty_gives_NaN nan_data 6 (161 / 5) = Inr nan_res \<and>
   NaN \<in> set (Displacement_mm nan_data) \<and> failure_strain_percent nan_res = NaN"
proof -
  from failure_strain_from_max_displacement[OF calculate_ex_data[of Empty_gives_NaN]]
  obtain dmax where d: "np_max (Displacement_mm ex_data) = Inr dmax"
    "failure_strain_percent ex_res = np_mul (np_div dmax (Fin (161 / 5))) (Fin 100)"
    by blast
  from d(1) have dm: "dmax = Fin 25" unfolding ex_dmax by simp
  have rows: "Displacement_mm ex_data ! 12 = Fin 25" "last (Displacement_mm ex_data) = Fin 19"
    by (simp_all add: ex_data_def ex_rows_def)
  have "stress_MPa (Load_kN ex_data) (Fin area_6) ! 10 = Fin (30000 / (pi * 3 ^ 2))"
    unfolding ex_stress by (simp add: area_6_def)
  then have u: "uts_MPa ex_res = stress (stress_strain_data ex_res) ! 10"
    by (simp add: ex_res_def)
  from failure_strain_from_max_displacement[OF calculate_nan_data[of Empty_gives_NaN]]
    nan_members(1)
  have "failure_strain_percent nan_res = NaN" by auto
  with d[unfolded dm] rows u show ?thesis
    using calculate_ex_data[of Empty_gives_NaN] calculate_nan_data[of Empty_gives_NaN]
      nan_members(1) ex_dmax
    by blast
qed

section \<open>Young's modulus\<close>

text \<open>
  Claim C2. Whenever the computation succeeds with yield index \<open>yi\<close>, the Young's modulus
  of the result is \<open>stress[yi] / strain[yi]\<close>, the secant modulus at the yield point.
  It is not the slope of the fitted line: on the sample test the fitted slope is 0 and
  the Young's modulus is not.
\<close>

theorem youngs_modulus_is_secant_at_yield:
  "(calculate_mechanical_properties scipy data d g = Inr res \<longrightarrow>
      (\<exists>slope intercept yi.
         linregress scipy
           (take (linear_points (nrows data)) (strain_of (Displacement_mm data) g))
           (take (linear_points (nrows data)) (stress_MPa (Load_kN data) (area_mm2 res)))
           = Inr (slope, intercept) \<and>
         yield_index (deviation (stress_MPa (Load_kN data) (area_mm2 res))
                        (predicted_stress slope intercept (strain_of (Displacement_mm data) g)))
           = Inr yi \<and>
         yi < nrows data \<and>
         youngs_modulus_MPa res =
           np_div (stress_MPa (Load_kN data) (area_mm2 res) ! yi)
                  (strain_of (Displacement_mm data) g ! yi))) \<and>
   (calculate_mechanical_properties scipy ex_data 6 (161 / 5) = Inr ex_res \<and>
    linregress scipy
      (take (linear_points (nrows ex_data)) (strain_of (Displacement_mm ex_data) (161 / 5)))
      (take (linear_points (nrows ex_data)) (stress_MPa (Load_kN ex_data) (area_mm2 ex_res)))
      = Inr (Fin 0, Fin 0) \<and>
    youngs_modulus_MPa ex_res \<noteq> Fin 0)"
proof -
  have "youngs_modulus_MPa ex_res \<noteq> Fin 0"
    by (simp add: ex_res_def)
  then show ?thesis
    using calculate_ex_data[of scipy] ex_fit[of scipy] calculate_Inr_yield[of scipy data d g res]
    unfolding ex_res_area by blast
qed

theorem youngs_modulus_is_secant_at_yield_witness:
  "calculate_mechanical_properties Empty_gives_NaN ex_data 6 (161 / 5) = Inr ex_res \<and>
   youngs_modulus_MPa ex_res =
     np_div (stress_MPa (Load_kN ex_data) (Fin area_6) ! 2)
            (strain_of (Displacement_mm ex_data) (161 / 5) ! 2) \<and>
   youngs_modulus_MPa ex_res = Fin ((1000 / (pi * 3 ^ 2)) / (2 / (161 / 5)))"
proof -
  from youngs_modulus_is_secant_at_yield[of Empty_gives_NaN ex_data 6 "161 / 5" ex_res]
    calculate_ex_data[of Empty_gives_NaN]
  obtain slope intercept yi where
    fit: "linregress Empty_gives_NaN
            (take (linear_points (nrows ex_data)) (strain_of (Displacement_mm ex_data) (161 / 5)))
            (take (linear_points (nrows ex_data)) (stress_MPa (Load_kN ex_data) (Fin area_6)))
          = Inr (slope, intercept)" and
    yi: "yield_index (deviation (stress_MPa (Load_kN ex_data) (Fin area_6))
           (predicted_stress slope intercept (strain_of (Displacement_mm ex_data) (161 / 5)))) = Inr yi" and
    ym: "youngs_modulus_MPa ex_res =
           np_div (stress_MPa (Load_kN ex_data) (Fin area_6) ! yi)
                  (strain_of (Displacement_mm ex_data) (161 / 5) ! yi)"
    unfolding ex_res_area by blast
  from fit have si: "slope = Fin 0" "intercept = Fin 0"
    unfolding ex_fit by auto
  from yi have "yi = 2"
    unfolding si ex_yield_index by simp
  with ym calculate_ex_data[of Empty_gives_NaN] show ?thesis by (simp add: ex_res_def)
qed

subsection \<open>Rows of the curve\<close>










section \<open>The curve builder\<close>




lemma guarded_deviation_zero:
  assumes "s < - (1 / 10 ^ 6)"
  shows "np_div (np_abs (np_sub (Fin s) (Fin s))) (np_add (Fin s) (Fin (1 / 10 ^ 6))) = Fin 0"
  using assms by (auto simp: np_sub_def)

lemma fit_of_twenty_equal:
  assumes "nrows data = 20"
    "np_eq (strain_of (Displacement_mm data) g ! 0) (strain_of (Displacement_mm data) g ! 1)"
  shows "linregress scipy
           (take (linear_points (nrows data)) (strain_of (Displacement_mm data) g))
           (take (linear_points (nrows data)) (stress_MPa (Load_kN data) A_0)) = Inl ValueError"
  using assms(2) by (simp add: fit_of_twenty[OF assms(1)] linregress_pair)

lemma fit_of_twenty_distinct:
  assumes "nrows data = 20"
    "\<not> np_eq (strain_of (Displacement_mm data) g ! 0) (strain_of (Displacement_mm data) g ! 1)"
  shows "\<exists>slope intercept. linregress scipy
           (take (linear_points (nrows data)) (strain_of (Displacement_mm data) g))
           (take (linear_points (nrows data)) (stress_MPa (Load_kN data) A_0))
         = Inr (slope, intercept)"
  using assms(2) by (simp add: fit_of_twenty[OF assms(1)] linregress_pair Let_def)

lemma prefix_lengths:
  "length (take (linear_points (nrows data)) (strain_of (Displacement_mm data) g)) = nrows data div 10"
  "length (take (linear_points (nrows data)) (stress_MPa (Load_kN data) A_0)) = nrows data div 10"
  by (simp_all add: linear_points_div length_stress_MPa length_strain_of)

section \<open>The elastic prefix\<close>

text \<open>
  Claim C3, as the code has it. The prefix handed to the fit has exactly
  \<open>k = \<lfloor>0.1 * n\<rfloor>\<close> points, that is \<open>n div 10\<close>. The code has no check of \<open>k\<close> and no
  error of its own for a short input; the computation still fails whenever \<open>k < 2\<close>,
  that is \<open>n < 20\<close>, with an exception of a later line. With 10 to 19 rows \<open>k = 1\<close>:
  the fit accepts its single point and returns NaN for slope and intercept, and, the
  area being computed, the computation fails with the IndexError of the yield lookup.
  With 20 rows \<open>k = 2\<close> and the fit is run on two points: it returns a line, unless the
  first two strains are equal, which it rejects with ValueError.
\<close>

theorem elastic_prefix_and_short_inputs:
  "length (take (linear_points (nrows data)) (strain_of (Displacement_mm data) g)) = nrows data div 10 \<and>
   length (take (linear_points (nrows data)) (stress_MPa (Load_kN data) area)) = nrows data div 10 \<and>
   (nrows data < 20 \<longrightarrow> isl (calculate_mechanical_properties scipy data d g)) \<and>
   (10 \<le> nrows data \<and> nrows data < 20 \<longrightarrow>
      linear_points (nrows data) = 1 \<and>
      linregress scipy (take (linear_points (nrows data)) (strain_of (Displacement_mm data) g))
                 (take (linear_points (nrows data)) (stress_MPa (Load_kN data) area))
        = Inr (NaN, NaN) \<and>
      (A_0_mm2 d = Inr area \<longrightarrow>
         calculate_mechanical_properties scipy data d g = Inl IndexError)) \<and>
   (nrows data = 20 \<longrightarrow>
      linear_points (nrows data) = 2 \<and>
      (np_eq (strain_of (Displacement_mm data) g ! 0) (strain_of (Displacement_mm data) g ! 1) \<longrightarrow>
         linregress scipy (take (linear_points (nrows data)) (strain_of (Displacement_mm data) g))
                    (take (linear_points (nrows data)) (stress_MPa (Load_kN data) area))
           = Inl ValueError \<and>
         (A_0_mm2 d = Inr area \<longrightarrow>
            calculate_mechanical_properties scipy data d g = Inl ValueError)) \<and>
      (\<not> np_eq (strain_of (Displacement_mm data) g ! 0) (strain_of (Displacement_mm data) g ! 1) \<longrightarrow>
         (\<exists>slope intercept.
            linregress scipy (take (linear_points (nrows data)) (strain_of (Displacement_mm data) g))
                       (take (linear_points (nrows data)) (stress_MPa (Load_kN data) area))
              = Inr (slope, intercept))))"
proof -
  have one: "linear_points (nrows data) = 1" if "10 \<le> nrows data" "nrows data < 20"
    using that by (simp add: linear_points_div)
  have twenty: "linear_points (nrows data) = 2" if "nrows data = 20"
    using that by (simp add: linear_points_div)
  have same: "calculate_mechanical_properties scipy data d g = Inl ValueError"
    if "nrows data = 20"
       "np_eq (strain_of (Displacement_mm data) g ! 0) (strain_of (Displacement_mm data) g ! 1)"
       "A_0_mm2 d = Inr area"
    by (rule calculate_fit_error[OF that(3) fit_of_twenty_equal[OF that(1,2)]])
  show ?thesis
    using prefix_lengths(1)[of data g] prefix_lengths(2)[of data area] one twenty same
      fit_of_twenty_equal[of data g scipy area] fit_of_twenty_distinct[of data g scipy area]
      short_fit[of data scipy g area] calculate_short[of d area data scipy g]
      calculate_fails_below_twenty[of data scipy d g]
    by blast
qed

theorem elastic_prefix_and_short_inputs_witness:
  "nrows tiny_data < 20 \<and>
   isl (calculate_mechanical_properties Empty_gives_NaN tiny_data 6 (161 / 5)) \<and>
   10 \<le> nrows short_data \<and> nrows short_data < 20 \<and>
   length (take (linear_points (nrows short_data)) (strain_of (Displacement_mm short_data) (161 / 5))) = 1 \<and>
   linregress Empty_gives_NaN
     (take (linear_points (nrows short_data)) (strain_of (Displacement_mm short_data) (161 / 5)))
     (take (linear_points (nrows short_data)) (stress_MPa (Load_kN short_data) (Fin area_6)))
     = Inr (NaN, NaN) \<and>
   A_0_mm2 6 = Inr (Fin area_6) \<and>
   calculate_mechanical_properties Empty_gives_NaN short_data 6 (161 / 5) = Inl IndexError \<and>
   nrows ex_data = 20 \<and> linear_points (nrows ex_data) = 2 \<and>
   \<not> np_eq (strain_of (Displacement_mm ex_data) (161 / 5) ! 0)
           (strain_of (Displacement_mm ex_data) (161 / 5) ! 1) \<and>
   linregress Empty_gives_NaN
     (take (linear_points (nrows ex_data)) (strain_of (Displacement_mm ex_data) (161 / 5)))
     (take (linear_points (nrows ex_data)) (stress_MPa (Load_kN ex_data) (Fin area_6)))
     = Inr (Fin 0, Fin 0) \<and>
   nrows stuck_data = 20 \<and>
   np_eq (strain_of (Displacement_mm stuck_data) (161 / 5) ! 0)
         (strain_of (Displacement_mm stuck_data) (161 / 5) ! 1) \<and>
   calculate_mechanical_properties Empty_gives_NaN stuck_data 6 (161 / 5) = Inl ValueError"
proof -
  note t = elastic_prefix_and_short_inputs[where data = tiny_data and g = "161 / 5"
             and area = "Fin area_6" and d = 6 and scipy = Empty_gives_NaN]
  note s = elastic_prefix_and_short_inputs[where data = short_data and g = "161 / 5"
             and area = "Fin area_6" and d = 6 and scipy = Empty_gives_NaN]
  note e = elastic_prefix_and_short_inputs[where data = ex_data and g = "161 / 5"
             and area = "Fin area_6" and d = 6 and scipy = Empty_gives_NaN]
  note k = elastic_prefix_and_short_inputs[where data = stuck_data and g = "161 / 5"
             and area = "Fin area_6" and d = 6 and scipy = Empty_gives_NaN]
  have n: "nrows tiny_data < 20" "10 \<le> nrows short_data" "nrows short_data < 20"
    "nrows ex_data = 20" "nrows stuck_data = 20"
    by (simp_all add: length_examples)
  from t n(1) have 1: "isl (calculate_mechanical_properties Empty_gives_NaN tiny_data 6 (161 / 5))"
    by blast
  from s have "length (take (linear_points (nrows short_data))
      (strain_of (Displacement_mm short_data) (161 / 5))) = nrows short_data div 10"
    by blast
  then have 2: "length (take (linear_points (nrows short_data))
      (strain_of (Displacement_mm short_data) (161 / 5))) = 1"
    by (simp add: length_examples)
  from s n(2,3) A_0_mm2_6 have 3:
    "linregress Empty_gives_NaN
       (take (linear_points (nrows short_data)) (strain_of (Displacement_mm short_data) (161 / 5)))
       (take (linear_points (nrows short_data)) (stress_MPa (Load_kN short_data) (Fin area_6)))
     = Inr (NaN, NaN)"
    "calculate_mechanical_properties Empty_gives_NaN short_data 6 (161 / 5) = Inl IndexError"
    by blast+
  from e n(4) have 4: "linear_points (nrows ex_data) = 2" by blast
  from k n(5) stuck_strain_equal A_0_mm2_6 have 5:
    "calculate_mechanical_properties Empty_gives_NaN stuck_data 6 (161 / 5) = Inl ValueError"
    by blast
  from n 1 2 3 4 5 A_0_mm2_6 ex_strain_distinct stuck_strain_equal ex_fit[of Empty_gives_NaN]
  show ?thesis by blast
qed

text \<open>
  The claim as stated fails on ten rows: there \<open>k = 1\<close>, the fit itself does not fail,
  and the error of the computation is the IndexError of the yield lookup.
\<close>

theorem short_input_counterexample:
  "nrows short_data = 10 \<and> linear_points (nrows short_data) = 1 \<and>
   A_0_mm2 6 = Inr (Fin area_6) \<and>
   linregress Empty_gives_NaN
     (take (linear_points (nrows short_data)) (strain_of (Displacement_mm short_data) (161 / 5)))
     (take (linear_points (nrows short_data)) (stress_MPa (Load_kN short_data) (Fin area_6)))
     = Inr (NaN, NaN) \<and>
   linregress Empty_raises
     (take (linear_points (nrows short_data)) (strain_of (Displacement_mm short_data) (161 / 5)))
     (take (linear_points (nrows short_data)) (stress_MPa (Load_kN short_data) (Fin area_6)))
     = Inr (NaN, NaN) \<and>
   calculate_mechanical_properties Empty_gives_NaN short_data 6 (161 / 5) = Inl IndexError \<and>
   calculate_mechanical_properties Empty_raises short_data 6 (161 / 5) = Inl IndexError"
proof -
  have n: "10 \<le> nrows short_data" "nrows short_data < 20" "nrows short_data = 10"
    by (simp_all add: length_examples)
  have "linear_points (nrows short_data) = 1"
    by (simp add: length_examples linear_points_div)
  with n(3) A_0_mm2_6 short_fit[OF n(1,2)] calculate_short[OF A_0_mm2_6 n(1,2)]
  show ?thesis by blast
qed

section \<open>A curve with no yield point\<close>

text \<open>
  Claim C4, as the code has it. When the area is computed, the fit returns a line and
  no index has a deviation above 0.05, the index array of \<^verbatim>\<open>np.where\<close> is empty and the
  computation fails with the IndexError that reading its element 0 raises. The failure
  is this out-of-bounds access itself: the code has no check for an empty index array
  and no error of its own for it. No result is returned.
\<close>

theorem no_yield_raises_IndexError:
  assumes "A_0_mm2 d = Inr A_0"
    and "linregress scipy
           (take (linear_points (nrows data)) (strain_of (Displacement_mm data) g))
           (take (linear_points (nrows data)) (stress_MPa (Load_kN data) A_0))
         = Inr (slope, intercept)"
    and "\<forall>i<nrows data.
           \<not> np_gt (np_div (np_abs (np_sub (stress_MPa (Load_kN data) A_0 ! i)
                       (np_add (np_mul slope (strain_of (Displacement_mm data) g ! i)) intercept)))
                     (np_add (stress_MPa (Load_kN data) A_0 ! i) (Fin (1 / 10 ^ 6))))
                   (Fin (5 / 100))"
  shows "np_where (map (\<lambda>d. np_gt d deviation_threshold)
            (deviation (stress_MPa (Load_kN data) A_0)
               (predicted_stress slope intercept (strain_of (Displacement_mm data) g)))) = [] \<and>
         calculate_mechanical_properties scipy data d g = Inl IndexError"
proof -
  have len: "length (strain_of (Displacement_mm data) g) = length (stress_MPa (Load_kN data) A_0)"
    by (simp add: length_stress_MPa length_strain_of)
  have n: "length (stress_MPa (Load_kN data) A_0) = nrows data"
    by (simp add: length_stress_MPa)
  have y: "yield_index (deviation (stress_MPa (Load_kN data) A_0)
             (predicted_stress slope intercept (strain_of (Displacement_mm data) g))) = Inl IndexError"
    unfolding yield_index_Inl_iff length_deviation[OF len] n
    using assms(3) by (simp add: deviation_nth[OF _ len] n deviation_threshold_def)
  from calculate_yield_error[OF assms(1,2) y] y show ?thesis
    by (simp add: np_where_empty_iff)
qed

theorem no_yield_raises_IndexError_witness:
  "A_0_mm2 6 = Inr (Fin area_6) \<and>
   linregress Empty_gives_NaN
     (take (linear_points (nrows linear_data)) (strain_of (Displacement_mm linear_data) (161 / 5)))
     (take (linear_points (nrows linear_data)) (stress_MPa (Load_kN linear_data) (Fin area_6)))
     = Inr (Fin (322 * (1000 / area_6)), Fin 0) \<and>
   np_where (map (\<lambda>d. np_gt d deviation_threshold)
      (deviation (stress_MPa (Load_kN linear_data) (Fin area_6))
         (predicted_stress (Fin (322 * (1000 / area_6))) (Fin 0)
            (strain_of (Displacement_mm linear_data) (161 / 5))))) = [] \<and>
   calculate_mechanical_properties Empty_gives_NaN linear_data 6 (161 / 5) = Inl IndexError"
proof -
  have "\<forall>i<nrows linear_data.
           \<not> np_gt (np_div (np_abs (np_sub (stress_MPa (Load_kN linear_data) (Fin area_6) ! i)
                       (np_add (np_mul (Fin (322 * (1000 / area_6)))
                          (strain_of (Displacement_mm linear_data) (161 / 5) ! i)) (Fin 0))))
                     (np_add (stress_MPa (Load_kN linear_data) (Fin area_6) ! i) (Fin (1 / 10 ^ 6))))
                   (Fin (5 / 100))"
    using linear_below_threshold unfolding length_examples by blast
  from no_yield_raises_IndexError[OF A_0_mm2_6 linear_fit[of Empty_gives_NaN] this]
    A_0_mm2_6 linear_fit[of Empty_gives_NaN]
  show ?thesis by blast
qed

text \<open>
  The claim as stated fails on the perfectly linear test: the error is the IndexError of
  the out-of-bounds read.
\<close>

theorem no_yield_counterexample:
  "yield_index (deviation (stress_MPa (Load_kN linear_data) (Fin area_6))
      (predicted_stress (Fin (322 * (1000 / area_6))) (Fin 0)
         (strain_of (Displacement_mm linear_data) (161 / 5)))) = Inl IndexError \<and>
   A_0_mm2 6 = Inr (Fin area_6) \<and>
   calculate_mechanical_properties Empty_gives_NaN linear_data 6 (161 / 5) = Inl IndexError \<and>
   calculate_mechanical_properties Empty_raises linear_data 6 (161 / 5) = Inl IndexError"
  using linear_yield_index calculate_linear_data A_0_mm2_6 by blast

section \<open>Input validation\<close>

text \<open>
  Claim C5, as the code has it. The computation itself checks nothing and has no error
  of its own for a bad input. The sign of the geometry is checked by its caller:
  \<^verbatim>\<open>update_output\<close> answers \<open>Inputs must be positive numbers.\<close> and does not run
  the computation unless diameter and gauge length (and the displacement rate) are
  numbers above zero. Called directly, the computation treats a negative diameter as
  its absolute value. A table with no rows passes through the curve-building lines,
  which produce an empty curve, and makes the computation fail at a later line. The
  two columns of a DataFrame cannot differ in length.
\<close>

theorem geometry_checked_by_caller:
  "(n_clicks \<noteq> 0 \<and> \<not> (positive_number diameter \<and> positive_number gauge_length) \<longrightarrow>
      update_output scipy process_csv_data n_clicks (Some c) filename diameter gauge_length
        displacement_rate = Inr (Message ''Inputs must be positive numbers.'')) \<and>
   calculate_mechanical_properties scipy data (- d) g =
     calculate_mechanical_properties scipy data d g \<and>
   (nrows frame = 0 \<longrightarrow>
      stress_MPa (Load_kN frame) area = [] \<and> strain_of (Displacement_mm frame) g = [] \<and>
      isl (calculate_mechanical_properties scipy frame d g))"
proof -
  have "isl (calculate_mechanical_properties scipy frame d g)" if "nrows frame = 0"
    using that by (intro calculate_fails_below_twenty) simp
  then show ?thesis
    using update_output_rejects[of n_clicks diameter gauge_length scipy process_csv_data c
            filename displacement_rate]
      calculate_neg_diameter[of scipy data d g] empty_curve(1)[of frame area] empty_curve(2)[of frame g]
    by blast
qed

theorem geometry_checked_by_caller_witness:
  "(1::nat) \<noteq> 0 \<and> \<not> (positive_number (Some (- 6)) \<and> positive_number (Some (161 / 5))) \<and>
   update_output Empty_gives_NaN (\<lambda>c f. Inr ex_data) 1 (Some ''data:text/csv;base64,TG9hZA=='')
     ''test.csv'' (Some (- 6)) (Some (161 / 5)) (Some 2)
     = Inr (Message ''Inputs must be positive numbers.'') \<and>
   \<not> positive_number (Some 0) \<and>
   update_output Empty_gives_NaN (\<lambda>c f. Inr ex_data) 1 (Some ''data:text/csv;base64,TG9hZA=='')
     ''test.csv'' (Some 6) (Some 0) (Some 2)
     = Inr (Message ''Inputs must be positive numbers.'') \<and>
   nrows (Float_loads []) = 0 \<and>
   stress_MPa (Load_kN (Float_loads [])) (Fin area_6) = [] \<and>
   isl (calculate_mechanical_properties Empty_gives_NaN (Float_loads []) 6 (161 / 5)) \<and>
   calculate_mechanical_properties Empty_gives_NaN ex_data (- 6) (161 / 5) =
     calculate_mechanical_properties Empty_gives_NaN ex_data 6 (161 / 5)"
proof -
  note a = geometry_checked_by_caller[where n_clicks = 1 and diameter = "Some (- 6)"
      and gauge_length = "Some (161 / 5)" and process_csv_data = "\<lambda>c f. Inr ex_data"
      and c = "''data:text/csv;base64,TG9hZA==''" and filename = "''test.csv''"
      and displacement_rate = "Some 2" and frame = "Float_loads []" and d = 6 and g = "161 / 5"
      and scipy = Empty_gives_NaN and data = ex_data and area = "Fin area_6"]
  note b = geometry_checked_by_caller[where n_clicks = 1 and diameter = "Some 6"
      and gauge_length = "Some 0" and process_csv_data = "\<lambda>c f. Inr ex_data"
      and c = "''data:text/csv;base64,TG9hZA==''" and filename = "''test.csv''"
      and displacement_rate = "Some 2" and frame = "Float_loads []" and d = 6 and g = "161 / 5"
      and scipy = Empty_gives_NaN and data = ex_data and area = "Fin area_6"]
  have p: "(1::nat) \<noteq> 0"
    "\<not> (positive_number (Some (- 6)) \<and> positive_number (Some (161 / 5)))"
    "\<not> (positive_number (Some 6) \<and> positive_number (Some 0))"
    "\<not> positive_number (Some 0)"
    "nrows (Float_loads []) = 0"
    by (simp_all add: positive_number_def)
  from a p(1,2) have 1:
    "update_output Empty_gives_NaN (\<lambda>c f. Inr ex_data) 1 (Some ''data:text/csv;base64,TG9hZA=='')
       ''test.csv'' (Some (- 6)) (Some (161 / 5)) (Some 2)
     = Inr (Message ''Inputs must be positive numbers.'')" by blast
  from b p(1,3) have 2:
    "update_output Empty_gives_NaN (\<lambda>c f. Inr ex_data) 1 (Some ''data:text/csv;base64,TG9hZA=='')
       ''test.csv'' (Some 6) (Some 0) (Some 2)
     = Inr (Message ''Inputs must be positive numbers.'')" by blast
  from a p(5) have 3: "stress_MPa (Load_kN (Float_loads [])) (Fin area_6) = []"
    "isl (calculate_mechanical_properties Empty_gives_NaN (Float_loads []) 6 (161 / 5))"
    by blast+
  from a have 4: "calculate_mechanical_properties Empty_gives_NaN ex_data (- 6) (161 / 5) =
     calculate_mechanical_properties Empty_gives_NaN ex_data 6 (161 / 5)" by blast
  from p 1 2 3 4 show ?thesis by blast
qed

text \<open>
  The claim as stated fails for a diameter of \<open>-6\<close> mm: the computation succeeds, with
  the result of the sample test.
\<close>

theorem negative_diameter_counterexample:
  "calculate_mechanical_properties Empty_gives_NaN ex_data (- 6) (161 / 5) = Inr ex_res \<and>
   calculate_mechanical_properties Empty_raises ex_data (- 6) (161 / 5) = Inr ex_res"
  using calculate_neg_diameter[of _ ex_data 6 "161 / 5"] calculate_ex_data by simp

section \<open>The guard against a zero denominator\<close>

text \<open>
  Claim C10, as the code has it. Adding \<open>1e-6\<close> to the stress keeps the denominator
  of the deviation away from zero only for stresses that are not negative. Where the
  stress is below \<open>-1e-6\<close>, the denominator is negative and the deviation is never
  positive, so it cannot exceed the threshold at that index; it is negative when the
  stress and the predicted stress are finite and differ, and zero when they are equal.
  And there is an input with a negative load (\<open>zero_den_data\<close>, on a 6 mm specimen) whose
  stress in row 2 is \<open>-1e-6\<close>: the denominator is exactly zero there and the division
  yields infinity.
\<close>

theorem epsilon_guard_limits:
  "(i < length strs \<and> length strn = length strs \<and> np_gt (Fin (- (1 / 10 ^ 6))) (strs ! i) \<longrightarrow>
      np_gt (Fin 0) (np_add (strs ! i) (Fin (1 / 10 ^ 6))) \<and>
      \<not> np_gt (deviation strs (predicted_stress slope intercept strn) ! i) (Fin 0) \<and>
      \<not> np_gt (deviation strs (predicted_stress slope intercept strn) ! i) deviation_threshold \<and>
      (\<forall>s p. strs ! i = Fin s \<and> np_add (np_mul slope (strn ! i)) intercept = Fin p \<and> s \<noteq> p \<longrightarrow>
         np_gt (Fin 0) (deviation strs (predicted_stress slope intercept strn) ! i)) \<and>
      (\<forall>s. strs ! i = Fin s \<and> np_add (np_mul slope (strn ! i)) intercept = Fin s \<longrightarrow>
         deviation strs (predicted_stress slope intercept strn) ! i = Fin 0)) \<and>
   (A_0_mm2 6 = Inr (Fin area_6) \<and>
    as_float64 (Load_kN zero_den_data) ! 2 = Fin (- (pi * 3 ^ 2) / 10 ^ 9) \<and>
    stress_MPa (Load_kN zero_den_data) (Fin area_6) ! 2 = Fin (- (1 / 10 ^ 6)) \<and>
    np_add (stress_MPa (Load_kN zero_den_data) (Fin area_6) ! 2) (Fin (1 / 10 ^ 6)) = Fin 0 \<and>
    linregress scipy (take (linear_points (nrows zero_den_data))
                  (strain_of (Displacement_mm zero_den_data) (161 / 5)))
               (take (linear_points (nrows zero_den_data))
                  (stress_MPa (Load_kN zero_den_data) (Fin area_6)))
      = Inr (Fin 0, Fin 0) \<and>
    deviation (stress_MPa (Load_kN zero_den_data) (Fin area_6))
      (predicted_stress (Fin 0) (Fin 0) (strain_of (Displacement_mm zero_den_data) (161 / 5))) ! 2
      = PInf)"
proof -
  have general:
    "np_gt (Fin 0) (np_add (strs ! i) (Fin (1 / 10 ^ 6))) \<and>
      \<not> np_gt (deviation strs (predicted_stress slope intercept strn) ! i) (Fin 0) \<and>
      \<not> np_gt (deviation strs (predicted_stress slope intercept strn) ! i) deviation_threshold \<and>
      (\<forall>s p. strs ! i = Fin s \<and> np_add (np_mul slope (strn ! i)) intercept = Fin p \<and> s \<noteq> p \<longrightarrow>
         np_gt (Fin 0) (deviation strs (predicted_stress slope intercept strn) ! i)) \<and>
      (\<forall>s. strs ! i = Fin s \<and> np_add (np_mul slope (strn ! i)) intercept = Fin s \<longrightarrow>
         deviation strs (predicted_stress slope intercept strn) ! i = Fin 0)"
    if h: "i < length strs" "length strn = length strs"
          "np_gt (Fin (- (1 / 10 ^ 6))) (strs ! i)"
  proof -
    note d = deviation_nth[OF h(1,2), of slope intercept]
    have neg: "np_gt (Fin 0) (deviation strs (predicted_stress slope intercept strn) ! i)"
      if "strs ! i = Fin s \<and> np_add (np_mul slope (strn ! i)) intercept = Fin p \<and> s \<noteq> p" for s p
    proof -
      have "s < - (1 / 10 ^ 6)" using h(3) that by simp
      from guarded_deviation_negative[OF this, of p] that show ?thesis
        unfolding d by simp
    qed
    have zero: "deviation strs (predicted_stress slope intercept strn) ! i = Fin 0"
      if "strs ! i = Fin s \<and> np_add (np_mul slope (strn ! i)) intercept = Fin s" for s
    proof -
      have "s < - (1 / 10 ^ 6)" using h(3) that by simp
      from guarded_deviation_zero[OF this] that show ?thesis
        unfolding d by simp
    qed
    from neg zero show ?thesis
      unfolding d deviation_threshold_def using guarded_deviation[OF h(3)] by blast
  qed
  have "np_add (stress_MPa (Load_kN zero_den_data) (Fin area_6) ! 2) (Fin (1 / 10 ^ 6)) = Fin 0"
    unfolding zero_den_stress by simp
  then show ?thesis
    using general A_0_mm2_6 zero_den_load zero_den_stress(3) zero_den_fit[of scipy]
      zero_den_deviation
    by blast
qed

theorem epsilon_guard_limits_witness:
  "2 < length (stress_MPa (Load_kN neg_data) (Fin area_6)) \<and>
   length (strain_of (Displacement_mm neg_data) (161 / 5)) = length (stress_MPa (Load_kN neg_data) (Fin area_6)) \<and>
   np_gt (Fin (- (1 / 10 ^ 6))) (stress_MPa (Load_kN neg_data) (Fin area_6) ! 2) \<and>
   np_gt (Fin 0) (np_add (stress_MPa (Load_kN neg_data) (Fin area_6) ! 2) (Fin (1 / 10 ^ 6))) \<and>
   np_gt (Fin 0)
     (deviation (stress_MPa (Load_kN neg_data) (Fin area_6))
        (predicted_stress (Fin 0) (Fin (- (1000 / area_6)))
           (strain_of (Displacement_mm neg_data) (161 / 5))) ! 2) \<and>
   \<not> np_gt
     (deviation (stress_MPa (Load_kN neg_data) (Fin area_6))
        (predicted_stress (Fin 0) (Fin (- (1000 / area_6)))
           (strain_of (Displacement_mm neg_data) (161 / 5))) ! 2) deviation_threshold \<and>
   np_gt (Fin (- (1 / 10 ^ 6))) (stress_MPa (Load_kN neg_data) (Fin area_6) ! 1) \<and>
   stress_MPa (Load_kN neg_data) (Fin area_6) ! 1 = Fin (- (1000 / area_6)) \<and>
   np_add (np_mul (Fin 0) (strain_of (Displacement_mm neg_data) (161 / 5) ! 1))
      (Fin (- (1000 / area_6))) = Fin (- (1000 / area_6)) \<and>
   deviation (stress_MPa (Load_kN neg_data) (Fin area_6))
     (predicted_stress (Fin 0) (Fin (- (1000 / area_6)))
        (strain_of (Displacement_mm neg_data) (161 / 5))) ! 1 = Fin 0"
proof -
  have n: "2 < length (stress_MPa (Load_kN neg_data) (Fin area_6))"
       "1 < length (stress_MPa (Load_kN neg_data) (Fin area_6))"
       "length (strain_of (Displacement_mm neg_data) (161 / 5)) = length (stress_MPa (Load_kN neg_data) (Fin area_6))"
    by (simp_all add: length_stress_MPa length_strain_of length_examples)
  have b: "np_gt (Fin (- (1 / 10 ^ 6))) (stress_MPa (Load_kN neg_data) (Fin area_6) ! 1)"
    unfolding neg_stress_rows using scale_6_large by simp
  have p: "np_add (np_mul (Fin 0) (strain_of (Displacement_mm neg_data) (161 / 5) ! 1))
      (Fin (- (1000 / area_6))) = Fin (- (1000 / area_6))"
    using neg_strain_nth[of 1] by simp
  from epsilon_guard_limits[of 2 "stress_MPa (Load_kN neg_data) (Fin area_6)"
         "strain_of (Displacement_mm neg_data) (161 / 5)" "Fin 0" "Fin (- (1000 / area_6))"]
       n neg_deviation_2
  have two: "np_gt (Fin 0) (np_add (stress_MPa (Load_kN neg_data) (Fin area_6) ! 2) (Fin (1 / 10 ^ 6)))"
    "np_gt (Fin 0)
     (deviation (stress_MPa (Load_kN neg_data) (Fin area_6))
        (predicted_stress (Fin 0) (Fin (- (1000 / area_6)))
           (strain_of (Displacement_mm neg_data) (161 / 5))) ! 2)"
    "\<not> np_gt
     (deviation (stress_MPa (Load_kN neg_data) (Fin area_6))
        (predicted_stress (Fin 0) (Fin (- (1000 / area_6)))
           (strain_of (Displacement_mm neg_data) (161 / 5))) ! 2) deviation_threshold"
    by blast+
  from epsilon_guard_limits[of 1 "stress_MPa (Load_kN neg_data) (Fin area_6)"
         "strain_of (Displacement_mm neg_data) (161 / 5)" "Fin 0" "Fin (- (1000 / area_6))"]
       n b p neg_stress_rows(2)
  have one: "deviation (stress_MPa (Load_kN neg_data) (Fin area_6))
     (predicted_stress (Fin 0) (Fin (- (1000 / area_6)))
        (strain_of (Displacement_mm neg_data) (161 / 5))) ! 1 = Fin 0"
    by blast
  from n neg_deviation_2(1) two b p neg_stress_rows(2) one show ?thesis by blast
qed

text \<open>
  The claim as stated fails on the compression test: the stress of row 0 is below
  \<open>-1e-6\<close>, the fitted line passes through it, and the deviation is zero, not negative.
\<close>

theorem zero_deviation_counterexample:
  "np_gt (Fin (- (1 / 10 ^ 6))) (stress_MPa (Load_kN neg_data) (Fin area_6) ! 0) \<and>
   linregress Empty_gives_NaN
     (take (linear_points (nrows neg_data)) (strain_of (Displacement_mm neg_data) (161 / 5)))
     (take (linear_points (nrows neg_data)) (stress_MPa (Load_kN neg_data) (Fin area_6)))
     = Inr (Fin 0, Fin (- (1000 / area_6))) \<and>
   deviation (stress_MPa (Load_kN neg_data) (Fin area_6))
     (predicted_stress (Fin 0) (Fin (- (1000 / area_6)))
        (strain_of (Displacement_mm neg_data) (161 / 5))) ! 0 = Fin 0 \<and>
   \<not> np_gt (Fin 0)
      (deviation (stress_MPa (Load_kN neg_data) (Fin area_6))
         (predicted_stress (Fin 0) (Fin (- (1000 / area_6)))
            (strain_of (Displacement_mm neg_data) (161 / 5))) ! 0)"
  using neg_stress_below neg_fit[of Empty_gives_NaN] neg_deviation_0 by simp


end
